theory Spec2Isabelle
  imports Complex_Main "HOL-Library.AList"
begin

section \<open>JavaScript values\<close>

text \<open>
  The server core (lib/xxx.js, lib/realm.js and the two earlier revisions of the same
  files) is JavaScript. The constructor inspects the runtime type of its positional
  arguments, so the values it can receive are a datatype. Finite numbers carry their
  mathematical value; the two ends of the binary64 range are kept, because
  \<^verbatim>\<open>isFinite\<close> and the truth value of a number are what the code observes.
  Strings are ASCII text.
\<close>

datatype jsnum = NaN | PInf | NInf | Fin rat

datatype 'o jsval =
    JUndefined
  | JNull
  | JBool bool
  | JNum jsnum
  | JStr string
  | JObj 'o
  | JFun
  | JPack nat

text \<open>\<^verbatim>\<open>isFinite(n)\<close> on a number.\<close>

fun isFinite :: "jsnum \<Rightarrow> bool" where
  "isFinite (Fin q) = True"
| "isFinite NaN = False"
| "isFinite PInf = False"
| "isFinite NInf = False"

text \<open>\<^verbatim>\<open>typeof v\<close>. An instance of the pack class is an object.\<close>

fun typeof :: "'o jsval \<Rightarrow> string" where
  "typeof JUndefined = ''undefined''"
| "typeof JNull = ''object''"
| "typeof (JBool b) = ''boolean''"
| "typeof (JNum n) = ''number''"
| "typeof (JStr s) = ''string''"
| "typeof (JObj ob) = ''object''"
| "typeof JFun = ''function''"
| "typeof (JPack p) = ''object''"

text \<open>The truth value of a value, as \<^verbatim>\<open>!v\<close> and \<^verbatim>\<open>v && ...\<close> read it.\<close>

fun ToBoolean :: "'o jsval \<Rightarrow> bool" where
  "ToBoolean JUndefined = False"
| "ToBoolean JNull = False"
| "ToBoolean (JBool b) = b"
| "ToBoolean (JNum n) = (n \<noteq> NaN \<and> n \<noteq> Fin 0)"
| "ToBoolean (JStr s) = (s \<noteq> [])"
| "ToBoolean (JObj ob) = True"
| "ToBoolean JFun = True"
| "ToBoolean (JPack p) = True"

subsection \<open>The unary plus on a string\<close>

text \<open>
  \<^verbatim>\<open>+argVal\<close> on a string is the language's string-to-number conversion (ECMAScript 5.1,
  9.3.1): white space is trimmed, the empty string is 0, then an optional sign and
  \<^verbatim>\<open>Infinity\<close> or a decimal literal with optional fraction and exponent, or an unsigned
  hexadecimal literal; every other string is NaN. A value at or beyond
  \<open>2^1024 - 2^970\<close> rounds to an infinity and one of magnitude at most \<open>2^-1075\<close>
  to zero.
\<close>

definition StrWhiteSpaceChar :: "char \<Rightarrow> bool" where
  "StrWhiteSpaceChar c \<longleftrightarrow>
     c \<in> set [CHR 0x09, CHR 0x0A, CHR 0x0B, CHR 0x0C, CHR 0x0D, CHR '' '']"

definition trim :: "string \<Rightarrow> string" where
  "trim s = rev (dropWhile StrWhiteSpaceChar (rev (dropWhile StrWhiteSpaceChar s)))"

definition DecimalDigit :: "char \<Rightarrow> bool" where
  "DecimalDigit c \<longleftrightarrow> (48::nat) \<le> of_char c \<and> (of_char c :: nat) \<le> 57"

definition HexDigit :: "char \<Rightarrow> bool" where
  "HexDigit c \<longleftrightarrow> DecimalDigit c
     \<or> ((65::nat) \<le> of_char c \<and> (of_char c :: nat) \<le> 70)
     \<or> ((97::nat) \<le> of_char c \<and> (of_char c :: nat) \<le> 102)"

definition hex_value :: "char \<Rightarrow> nat" where
  "hex_value c =
     (let n = (of_char c :: nat)
      in if n \<le> 57 then n - 48 else if n \<le> 70 then n - 55 else n - 87)"

definition digits_value :: "nat \<Rightarrow> string \<Rightarrow> nat" where
  "digits_value base ds = foldl (\<lambda>acc c. acc * base + hex_value c) 0 ds"

definition round_number :: "rat \<Rightarrow> jsnum" where
  "round_number q =
     (if 2 ^ 1024 - 2 ^ 970 \<le> \<bar>q\<bar> then (if 0 < q then PInf else NInf)
      else if \<bar>q\<bar> \<le> 1 / 2 ^ 1075 then Fin 0
      else Fin q)"

definition scale10 :: "nat \<Rightarrow> int \<Rightarrow> rat" where
  "scale10 m e = (if 0 \<le> e then of_nat m * 10 ^ nat e else of_nat m / 10 ^ nat (- e))"

text \<open>The exponent part of a decimal literal: absent, or e/E, an optional sign, digits.\<close>

definition ExponentPart :: "string \<Rightarrow> int option" where
  "ExponentPart r =
     (case r of
        [] \<Rightarrow> Some 0
      | c # r1 \<Rightarrow>
          if c = CHR ''e'' \<or> c = CHR ''E'' then
            (let (neg, ds) =
                   (case r1 of
                      [] \<Rightarrow> (False, [])
                    | d # r2 \<Rightarrow>
                        if d = CHR ''-'' then (True, r2)
                        else if d = CHR ''+'' then (False, r2)
                        else (False, r1))
             in if ds \<noteq> [] \<and> list_all DecimalDigit ds
                then Some (if neg then - int (digits_value 10 ds) else int (digits_value 10 ds))
                else None)
          else None)"

definition StrUnsignedDecimalLiteral :: "string \<Rightarrow> rat option" where
  "StrUnsignedDecimalLiteral t =
     (let ip = takeWhile DecimalDigit t;
          r1 = dropWhile DecimalDigit t;
          (fp, r2) =
            (case r1 of
               [] \<Rightarrow> ([], r1)
             | c # r \<Rightarrow>
                 if c = CHR ''.'' then (takeWhile DecimalDigit r, dropWhile DecimalDigit r)
                 else ([], r1))
      in if ip = [] \<and> fp = [] then None
         else (case ExponentPart r2 of
                 None \<Rightarrow> None
               | Some e \<Rightarrow> Some (scale10 (digits_value 10 (ip @ fp)) (e - int (length fp)))))"

definition StrDecimalLiteral :: "string \<Rightarrow> jsnum" where
  "StrDecimalLiteral t =
     (let (neg, u) =
            (case t of
               [] \<Rightarrow> (False, t)
             | c # r \<Rightarrow>
                 if c = CHR ''-'' then (True, r)
                 else if c = CHR ''+'' then (False, r)
                 else (False, t))
      in if u = ''Infinity'' then (if neg then NInf else PInf)
         else (case StrUnsignedDecimalLiteral u of
                 None \<Rightarrow> NaN
               | Some q \<Rightarrow> round_number (if neg then - q else q)))"

definition StringToNumber :: "string \<Rightarrow> jsnum" where
  "StringToNumber s =
     (let t = trim s
      in if t = [] then Fin 0
         else if (take 2 t = ''0x'' \<or> take 2 t = ''0X'')
           then (if drop 2 t \<noteq> [] \<and> list_all HexDigit (drop 2 t)
                 then round_number (of_nat (digits_value 16 (drop 2 t)))
                 else NaN)
         else StrDecimalLiteral t)"

section \<open>Constructor arguments (lib/xxx.js, \<^verbatim>\<open>internals.XXX.port\<close>)\<close>

text \<open>
  Every \<^verbatim>\<open>Hoek.assert\<close> of the modelled code that can fail is a constructor of
  \<open>error\<close>; a failed assertion throws, so construction returns \<open>Inl\<close> of it.
\<close>

datatype error =
    TooManyArguments
  | NoMatchForArgType string
  | DuplicatedArgType string
  | PortWithUnixDomainSocket
  | PortWithWindowsNamedPipe
  | LocationTrailingSlash
  | ServerTimeoutNotShorter
  | ClientTimeoutNotShorter
  | OriginStarWithOtherValues
  | WildcardWithMatchOriginDisabled
  | TypeError

text \<open>
  \<^verbatim>\<open>argMap\<close> and the \<^verbatim>\<open>result\<close> object: an object is a finite map from property names
  to values, and reading an absent property gives \<^verbatim>\<open>undefined\<close>.
\<close>

definition argMap :: "string \<rightharpoonup> string" where
  "argMap = [''string'' \<mapsto> ''host'', ''number'' \<mapsto> ''port'', ''object'' \<mapsto> ''options'']"

type_synonym 'o object = "string \<rightharpoonup> 'o jsval"

definition property :: "'o object \<Rightarrow> string \<Rightarrow> 'o jsval" where
  "property ob key = (case ob key of None \<Rightarrow> JUndefined | Some v \<Rightarrow> v)"

text \<open>\<^verbatim>\<open>argVal instanceof Server\<close>: the argument is the composite ("pack") instance.\<close>

fun instanceof_Server :: "'o jsval \<Rightarrow> bool" where
  "instanceof_Server (JPack p) = True"
| "instanceof_Server v = False"

text \<open>
  Lines 138-143: the type of the argument, and the numeric string turned into a
  number. \<^verbatim>\<open>+argVal\<close> is evaluated for strings only.
\<close>

definition coerce :: "'o jsval \<Rightarrow> string \<times> 'o jsval" where
  "coerce argVal =
     (case argVal of
        JStr s \<Rightarrow>
          if isFinite (StringToNumber s) then (''number'', JNum (StringToNumber s))
          else (''string'', argVal)
      | _ \<Rightarrow> (typeof argVal, argVal))"

text \<open>The body of the loop over the arguments, and the loop.\<close>

definition port_step :: "'o jsval \<Rightarrow> 'o object \<Rightarrow> error + 'o object" where
  "port_step argVal result =
     (if argVal = JUndefined then Inr result
      else if instanceof_Server argVal then Inr (result(''pack'' \<mapsto> argVal))
      else
        (let (type, v) = coerce argVal
         in case argMap type of
              None \<Rightarrow> Inl (NoMatchForArgType type)
            | Some key \<Rightarrow>
                if ToBoolean (property result key) then Inl (DuplicatedArgType type)
                else Inr (result(key \<mapsto> v))))"

fun port_loop :: "'o jsval list \<Rightarrow> 'o object \<Rightarrow> error + 'o object" where
  "port_loop [] result = Inr result"
| "port_loop (argVal # args) result =
     (case port_step argVal result of
        Inl e \<Rightarrow> Inl e
      | Inr result' \<Rightarrow> port_loop args result')"

definition port :: "'o jsval list \<Rightarrow> error + 'o object" where
  "port args =
     (if length args \<le> 4 then port_loop args Map.empty else Inl TooManyArguments)"



section \<open>Settings (lib/realm.js)\<close>

subsection \<open>Strings and numbers of the settings\<close>

text \<open>
  \<^verbatim>\<open>String.prototype.toUpperCase\<close> and \<^verbatim>\<open>toLowerCase\<close> on ASCII text, and
  \<^verbatim>\<open>Array.prototype.join\<close> on an array of strings.
\<close>

definition upper_char :: "char \<Rightarrow> char" where
  "upper_char c =
     (case map_of (zip ''abcdefghijklmnopqrstuvwxyz'' ''ABCDEFGHIJKLMNOPQRSTUVWXYZ'') c of
        None \<Rightarrow> c
      | Some u \<Rightarrow> u)"

definition lower_char :: "char \<Rightarrow> char" where
  "lower_char c =
     (case map_of (zip ''ABCDEFGHIJKLMNOPQRSTUVWXYZ'' ''abcdefghijklmnopqrstuvwxyz'') c of
        None \<Rightarrow> c
      | Some l \<Rightarrow> l)"

definition toUpperCase :: "string \<Rightarrow> string" where
  "toUpperCase s = map upper_char s"

definition toLowerCase :: "string \<Rightarrow> string" where
  "toLowerCase s = map lower_char s"

fun join :: "string \<Rightarrow> string list \<Rightarrow> string" where
  "join sep [] = []"
| "join sep [x] = x"
| "join sep (x # y # xs) = x @ sep @ join sep (y # xs)"

text \<open>
  The numbers of the settings (milliseconds, seconds) are integers. \<^verbatim>\<open>'max-age=' + n\<close>
  appends the decimal digits of \<open>n\<close>, with a minus sign when it is negative; that is
  the language's number-to-string conversion on every integer of magnitude below
  \<open>2^53\<close>.
\<close>

function decimal :: "nat \<Rightarrow> string" where
  "decimal n =
     (if n < 10 then [''0123456789'' ! n]
      else decimal (n div 10) @ [''0123456789'' ! (n mod 10)])"
  by pat_completeness auto
termination
  by (relation "measure id") auto

definition NumberToString :: "int \<Rightarrow> string" where
  "NumberToString n = (if n < 0 then CHR ''-'' # decimal (nat (- n)) else decimal (nat n))"

subsection \<open>Timeouts\<close>

text \<open>
  A timeout is \<^verbatim>\<open>false\<close> or a number of milliseconds; a property that is absent reads
  as \<^verbatim>\<open>undefined\<close> (\<open>None\<close>). The object under \<^verbatim>\<open>timeout\<close> has three such properties.
\<close>

datatype duration = Disabled | Millis int

record timeout_obj =
  socket :: "duration option"
  client :: "duration option"
  server :: "duration option"

text \<open>The truth value of a timeout, and \<^verbatim>\<open>a < b\<close> on two of them.\<close>

fun enabled :: "duration option \<Rightarrow> bool" where
  "enabled None = False"
| "enabled (Some Disabled) = False"
| "enabled (Some (Millis n)) = (n \<noteq> 0)"

fun ms :: "duration \<Rightarrow> int" where
  "ms Disabled = 0"
| "ms (Millis n) = n"

fun shorter :: "duration option \<Rightarrow> duration option \<Rightarrow> bool" where
  "shorter (Some a) (Some b) = (ms a < ms b)"
| "shorter a b = False"

text \<open>Lines 154-156 of lib/realm.js.\<close>

definition socketTimeout :: "timeout_obj \<Rightarrow> duration option" where
  "socketTimeout t = (if socket t = None then Some (Millis (2 * 60 * 1000)) else socket t)"

definition assert_timeouts :: "timeout_obj \<Rightarrow> error + unit" where
  "assert_timeouts t =
     (if \<not> (\<not> enabled (server t) \<or> \<not> enabled (socketTimeout t)
             \<or> shorter (server t) (socketTimeout t))
      then Inl ServerTimeoutNotShorter
      else if \<not> (\<not> enabled (client t) \<or> \<not> enabled (socketTimeout t)
             \<or> shorter (client t) (socketTimeout t))
      then Inl ClientTimeoutNotShorter
      else Inr ())"

text \<open>
  The defaults of \<^verbatim>\<open>internals.defaults.server.timeout\<close>, and \<^verbatim>\<open>Hoek.merge\<close> (a library
  outside the repository) on two such objects with null override off: a property of
  the source that is defined replaces the one of the target.
\<close>

definition defaults_timeout :: timeout_obj where
  "defaults_timeout = \<lparr>socket = None, client = Some (Millis (10 * 1000)), server = Some Disabled\<rparr>"

definition override :: "'a option \<Rightarrow> 'a option \<Rightarrow> 'a option" where
  "override target source = (case source of None \<Rightarrow> target | Some v \<Rightarrow> Some v)"

definition merge_timeout :: "timeout_obj \<Rightarrow> timeout_obj \<Rightarrow> timeout_obj" where
  "merge_timeout target source =
     \<lparr>socket = override (socket target) (socket source),
      client = override (client target) (client source),
      server = override (server target) (server source)\<rparr>"

subsection \<open>CORS origins\<close>

text \<open>
  \<^verbatim>\<open>Hoek.escapeRegex\<close> (a library outside the repository) puts a backslash before each
  of the characters \<^verbatim>\<open>^$.*+-?=!:|\/()[]{},\<close>.
\<close>

definition regex_special :: "char \<Rightarrow> bool" where
  "regex_special c \<longleftrightarrow> c \<in> set (''^$.*+-?=!:|'' @ [CHR 0x5C] @ ''/()[]{},'')"

fun escapeRegex :: "string \<Rightarrow> string" where
  "escapeRegex [] = []"
| "escapeRegex (c # s) =
     (if regex_special c then CHR 0x5C # c # escapeRegex s else c # escapeRegex s)"

text \<open>
  \<^verbatim>\<open>s.replace(/\\\*/g, '.*')\<close> and \<^verbatim>\<open>s.replace(/\\\?/g, '.')\<close>: every occurrence, from
  the left and without overlap, of a backslash followed by the character \<open>c\<close> is
  replaced by \<open>r\<close>.
\<close>

fun replace_escaped :: "char \<Rightarrow> string \<Rightarrow> string \<Rightarrow> string" where
  "replace_escaped c r (x # y # s) =
     (if x = CHR 0x5C \<and> y = c then r @ replace_escaped c r s
      else x # replace_escaped c r (y # s))"
| "replace_escaped c r s = s"

text \<open>The source of the regular expression of line 204.\<close>

definition wildcard_RegExp :: "string \<Rightarrow> string" where
  "wildcard_RegExp origin =
     ''^'' @ replace_escaped (CHR ''?'') ''.''
              (replace_escaped (CHR ''*'') ''.*'' (escapeRegex origin)) @ ''$''"

record origin_obj =
  any :: bool
  qualifiedOrigins :: "string list"
  qualifiedString :: string
  wildcards :: "string list"

text \<open>The loop of lines 201-209, and lines 188-214.\<close>

fun origin_loop :: "string list \<Rightarrow> origin_obj \<Rightarrow> origin_obj" where
  "origin_loop [] ob = ob"
| "origin_loop (origin # rest) ob =
     (if CHR ''*'' \<in> set origin
      then origin_loop rest (ob\<lparr>wildcards := wildcards ob @ [wildcard_RegExp origin]\<rparr>)
      else origin_loop rest (ob\<lparr>qualifiedOrigins := qualifiedOrigins ob @ [origin]\<rparr>))"

definition cors_origin :: "bool \<Rightarrow> string list \<Rightarrow> error + origin_obj option" where
  "cors_origin matchOrigin origin =
     (if origin = [] then Inr None
      else
        (let ob = \<lparr>any = False, qualifiedOrigins = [], qualifiedString = [], wildcards = []\<rparr>
         in if ''*'' \<in> set origin then
              (if length origin = 1 then Inr (Some (ob\<lparr>any := True\<rparr>))
               else Inl OriginStarWithOtherValues)
            else
              (let ob' = origin_loop origin ob
               in if matchOrigin \<or> wildcards ob' = []
                  then Inr (Some (ob'\<lparr>qualifiedString := join '' '' (qualifiedOrigins ob')\<rparr>))
                  else Inl WildcardWithMatchOriginDisabled)))"

subsection \<open>Security headers\<close>

text \<open>
  The \<^verbatim>\<open>hsts\<close> setting is a boolean, a number of seconds or an object with the
  optional properties \<^verbatim>\<open>maxAge\<close> and \<^verbatim>\<open>includeSubdomains\<close>; the \<^verbatim>\<open>xframe\<close> setting
  is a boolean, a string or an object with the optional properties \<^verbatim>\<open>rule\<close> and
  \<^verbatim>\<open>source\<close>.
\<close>

datatype hsts_setting =
    HstsBool bool
  | HstsNumber int
  | HstsObject "int option" "bool option"

datatype xframe_setting =
    XframeBool bool
  | XframeString string
  | XframeObject "string option" "string option"

fun hsts_truthy :: "hsts_setting option \<Rightarrow> bool" where
  "hsts_truthy None = False"
| "hsts_truthy (Some (HstsBool b)) = b"
| "hsts_truthy (Some (HstsNumber n)) = (n \<noteq> 0)"
| "hsts_truthy (Some (HstsObject m i)) = True"

fun xframe_truthy :: "xframe_setting option \<Rightarrow> bool" where
  "xframe_truthy None = False"
| "xframe_truthy (Some (XframeBool b)) = b"
| "xframe_truthy (Some (XframeString s)) = (s \<noteq> [])"
| "xframe_truthy (Some (XframeObject r s)) = True"

text \<open>
  Lines 221-234: the value of \<^verbatim>\<open>_hsts\<close>, \<open>None\<close> when the property is not set.
  \<^verbatim>\<open>maxAge || 15768000\<close> is the default when \<^verbatim>\<open>maxAge\<close> is absent or 0.
\<close>

definition hsts_header :: "hsts_setting option \<Rightarrow> string option" where
  "hsts_header hsts =
     (if hsts_truthy hsts then
        (case hsts of
           Some (HstsBool b) \<Rightarrow> Some ''max-age=15768000''
         | Some (HstsNumber n) \<Rightarrow> Some (''max-age='' @ NumberToString n)
         | Some (HstsObject m i) \<Rightarrow>
             Some (''max-age=''
                   @ NumberToString (case m of None \<Rightarrow> 15768000
                                     | Some n \<Rightarrow> if n \<noteq> 0 then n else 15768000)
                   @ (if i = Some True then ''; includeSubdomains'' else []))
         | None \<Rightarrow> None)
      else None)"

text \<open>
  Lines 236-254: the value of \<^verbatim>\<open>_xframe\<close>. An object without \<^verbatim>\<open>rule\<close> reaches
  \<^verbatim>\<open>undefined.toUpperCase()\<close>, which throws.
\<close>

definition xframe_header :: "xframe_setting option \<Rightarrow> error + string option" where
  "xframe_header xframe =
     (if xframe_truthy xframe then
        (case xframe of
           Some (XframeBool b) \<Rightarrow> Inr (Some ''DENY'')
         | Some (XframeString s) \<Rightarrow> Inr (Some (toUpperCase s))
         | Some (XframeObject r src) \<Rightarrow>
             if r = Some ''allow-from'' then
               (if src = None \<or> src = Some [] then Inr (Some ''SAMEORIGIN'')
                else Inr (Some (''ALLOW-FROM '' @ the src)))
             else (case r of None \<Rightarrow> Inl TypeError | Some r' \<Rightarrow> Inr (Some (toUpperCase r')))
         | None \<Rightarrow> Inr None)
      else Inr None)"

text \<open>
  The same classification with each character of the origin translated on its own:
  \<open>*\<close> to \<open>.*\<close>, \<open>?\<close> to \<open>.\<close>, a special character escaped, any other kept.
\<close>

definition wildcard_char :: "char \<Rightarrow> string" where
  "wildcard_char c =
     (if c = CHR ''*'' then ''.*''
      else if c = CHR ''?'' then ''.''
      else if regex_special c then [CHR 0x5C, c]
      else [c])"

subsection \<open>Objects of the settings and the store\<close>

text \<open>
  The constructor builds \<^verbatim>\<open>this.settings\<close> by assignments to properties of objects, so
  objects live in a store and are named by their address. The value of the \<^verbatim>\<open>cors\<close>
  and of the \<^verbatim>\<open>security\<close> property is \<^verbatim>\<open>null\<close>, a boolean, or an object; an absent
  property (\<^verbatim>\<open>undefined\<close>) is \<open>None\<close>. The raw options, the defaults and the resolved
  settings are objects of the same shape; the properties \<^verbatim>\<open>_headers\<close>, \<^verbatim>\<open>_origin\<close>,
  \<^verbatim>\<open>_hsts\<close> and the like, which an identifier here cannot spell, are the \<open>private\<close>
  ones. Arrays of strings and the small objects under \<^verbatim>\<open>timeout\<close>, \<^verbatim>\<open>tls\<close>,
  \<^verbatim>\<open>hsts\<close> and \<^verbatim>\<open>xframe\<close>, which the constructor only reads, are values. The
  settings that no statement below reads (labels, cache-control statuses, files,
  router, state, payload, debug) are left out, and so is the schema check, whose
  definition is in another file: the types are the shapes it admits.
\<close>

datatype setting = Null | Flag bool | Object nat

fun truthy :: "setting option \<Rightarrow> bool" where
  "truthy None = False"
| "truthy (Some Null) = False"
| "truthy (Some (Flag b)) = b"
| "truthy (Some (Object a)) = True"

record cors_obj =
  origin :: "string list option"
  isOriginExposed :: "bool option"
  matchOrigin :: "bool option"
  maxAge :: "int option"
  headers :: "string list option"
  additionalHeaders :: "string list option"
  methods :: "string list option"
  additionalMethods :: "string list option"
  exposedHeaders :: "string list option"
  additionalExposedHeaders :: "string list option"
  credentials :: "bool option"
  private_headers :: "string option"
  private_methods :: "string option"
  private_exposedHeaders :: "string option"
  private_origin :: "origin_obj option"

record security_obj =
  hsts :: "hsts_setting option"
  xframe :: "xframe_setting option"
  xss :: "bool option"
  noOpen :: "bool option"
  noSniff :: "bool option"
  private_hsts :: "string option"
  private_xframe :: "string option"

record server_obj =
  location :: "string option"
  timeout :: timeout_obj
  tls :: "(string \<times> string) option"
  cors :: "setting option"
  security :: "setting option"

record store =
  server_objs :: "server_obj list"
  cors_objs :: "cors_obj list"
  security_objs :: "security_obj list"

text \<open>
  \<^verbatim>\<open>internals.defaults\<close> (lines 18-141 of lib/realm.js): three objects of the module,
  at address 0 of the store.
\<close>

definition defaults_server :: server_obj where
  "defaults_server =
     \<lparr>location = Some [], timeout = defaults_timeout, tls = None,
      cors = Some (Flag False), security = Some (Flag False)\<rparr>"

definition defaults_cors :: cors_obj where
  "defaults_cors =
     \<lparr>origin = Some [''*''],
      isOriginExposed = Some True,
      matchOrigin = Some True,
      maxAge = Some 86400,
      headers = Some [''Authorization'', ''Content-Type'', ''If-None-Match''],
      additionalHeaders = Some [],
      methods = Some [''GET'', ''HEAD'', ''POST'', ''PUT'', ''PATCH'', ''DELETE'', ''OPTIONS''],
      additionalMethods = Some [],
      exposedHeaders = Some [''WWW-Authenticate'', ''Server-Authorization''],
      additionalExposedHeaders = Some [],
      credentials = Some False,
      private_headers = None, private_methods = None, private_exposedHeaders = None,
      private_origin = None\<rparr>"

definition defaults_security :: security_obj where
  "defaults_security =
     \<lparr>hsts = Some (HstsNumber 15768000), xframe = Some (XframeString ''deny''),
      xss = Some True, noOpen = Some True, noSniff = Some True,
      private_hsts = None, private_xframe = None\<rparr>"

definition module_store :: store where
  "module_store =
     \<lparr>server_objs = [defaults_server], cors_objs = [defaults_cors],
      security_objs = [defaults_security]\<rparr>"

subsection \<open>Hoek.merge and Hoek.applyToDefaults on these objects\<close>

text \<open>
  Hoek is a library outside the repository. \<^verbatim>\<open>Hoek.merge(target, source, false, false)\<close>
  writes every property of the source that is neither \<^verbatim>\<open>undefined\<close> nor \<^verbatim>\<open>null\<close>
  into the target: an array replaces the target's, an object is merged into the
  target's object when the target has one and is copied to a new object otherwise.
  \<^verbatim>\<open>Hoek.clone\<close> copies an object to a new address.
\<close>

definition merge_cors :: "cors_obj \<Rightarrow> cors_obj \<Rightarrow> cors_obj" where
  "merge_cors target source =
     \<lparr>origin = override (origin target) (origin source),
      isOriginExposed = override (isOriginExposed target) (isOriginExposed source),
      matchOrigin = override (matchOrigin target) (matchOrigin source),
      maxAge = override (maxAge target) (maxAge source),
      headers = override (headers target) (headers source),
      additionalHeaders = override (additionalHeaders target) (additionalHeaders source),
      methods = override (methods target) (methods source),
      additionalMethods = override (additionalMethods target) (additionalMethods source),
      exposedHeaders = override (exposedHeaders target) (exposedHeaders source),
      additionalExposedHeaders =
        override (additionalExposedHeaders target) (additionalExposedHeaders source),
      credentials = override (credentials target) (credentials source),
      private_headers = override (private_headers target) (private_headers source),
      private_methods = override (private_methods target) (private_methods source),
      private_exposedHeaders =
        override (private_exposedHeaders target) (private_exposedHeaders source),
      private_origin = override (private_origin target) (private_origin source)\<rparr>"

definition merge_security :: "security_obj \<Rightarrow> security_obj \<Rightarrow> security_obj" where
  "merge_security target source =
     \<lparr>hsts = override (hsts target) (hsts source),
      xframe = override (xframe target) (xframe source),
      xss = override (xss target) (xss source),
      noOpen = override (noOpen target) (noOpen source),
      noSniff = override (noSniff target) (noSniff source),
      private_hsts = override (private_hsts target) (private_hsts source),
      private_xframe = override (private_xframe target) (private_xframe source)\<rparr>"

text \<open>Cloning the value of a property, and merging a property of the source into it.\<close>

definition clone_cors :: "store \<Rightarrow> setting option \<Rightarrow> setting option \<times> store" where
  "clone_cors h v =
     (case v of
        Some (Object a) \<Rightarrow>
          (Some (Object (length (cors_objs h))),
           h\<lparr>cors_objs := cors_objs h @ [cors_objs h ! a]\<rparr>)
      | _ \<Rightarrow> (v, h))"

definition clone_security :: "store \<Rightarrow> setting option \<Rightarrow> setting option \<times> store" where
  "clone_security h v =
     (case v of
        Some (Object a) \<Rightarrow>
          (Some (Object (length (security_objs h))),
           h\<lparr>security_objs := security_objs h @ [security_objs h ! a]\<rparr>)
      | _ \<Rightarrow> (v, h))"

definition merge_cors_property ::
  "store \<Rightarrow> setting option \<Rightarrow> setting option \<Rightarrow> setting option \<times> store" where
  "merge_cors_property h target source =
     (case source of
        None \<Rightarrow> (target, h)
      | Some Null \<Rightarrow> (target, h)
      | Some (Flag b) \<Rightarrow> (source, h)
      | Some (Object a) \<Rightarrow>
          (case target of
             Some (Object t) \<Rightarrow>
               (target,
                h\<lparr>cors_objs := (cors_objs h)[t := merge_cors (cors_objs h ! t) (cors_objs h ! a)]\<rparr>)
           | _ \<Rightarrow> clone_cors h source))"

definition merge_security_property ::
  "store \<Rightarrow> setting option \<Rightarrow> setting option \<Rightarrow> setting option \<times> store" where
  "merge_security_property h target source =
     (case source of
        None \<Rightarrow> (target, h)
      | Some Null \<Rightarrow> (target, h)
      | Some (Flag b) \<Rightarrow> (source, h)
      | Some (Object a) \<Rightarrow>
          (case target of
             Some (Object t) \<Rightarrow>
               (target,
                h\<lparr>security_objs :=
                    (security_objs h)[t := merge_security (security_objs h ! t) (security_objs h ! a)]\<rparr>)
           | _ \<Rightarrow> clone_security h source))"

text \<open>
  Line 146: \<^verbatim>\<open>Hoek.applyToDefaultsWithShallow(internals.defaults.server, options || {}, ...)\<close>
  clones the defaults and merges the options into the clone; the result is the address
  of the new object. \<open>None\<close> is \<^verbatim>\<open>undefined\<close> or \<^verbatim>\<open>null\<close> options, read as \<^verbatim>\<open>{}\<close>.
\<close>

definition empty_server :: server_obj where
  "empty_server =
     \<lparr>location = None, timeout = \<lparr>socket = None, client = None, server = None\<rparr>,
      tls = None, cors = None, security = None\<rparr>"

definition applyToDefaultsWithShallow :: "store \<Rightarrow> nat option \<Rightarrow> nat \<times> store" where
  "applyToDefaultsWithShallow h options =
     (let defaults = server_objs h ! 0;
          source = (case options of None \<Rightarrow> empty_server | Some p \<Rightarrow> server_objs h ! p);
          (c0, h1) = clone_cors h (cors defaults);
          (s0, h2) = clone_security h1 (security defaults);
          (c1, h3) = merge_cors_property h2 c0 (cors source);
          (s1, h4) = merge_security_property h3 s0 (security source);
          copy =
            \<lparr>location = override (location defaults) (location source),
             timeout = merge_timeout (timeout defaults) (timeout source),
             tls = override (tls defaults) (tls source),
             cors = c1, security = s1\<rparr>
      in (length (server_objs h4), h4\<lparr>server_objs := server_objs h4 @ [copy]\<rparr>))"

text \<open>
  Lines 182 and 219: \<^verbatim>\<open>Hoek.applyToDefaults(defaults, options)\<close> is \<^verbatim>\<open>null\<close> for options
  that are not truthy, a clone of the defaults for \<^verbatim>\<open>true\<close>, and the options merged
  into a clone of the defaults otherwise.
\<close>

definition applyToDefaults_cors :: "store \<Rightarrow> setting option \<Rightarrow> setting \<times> store" where
  "applyToDefaults_cors h options =
     (if \<not> truthy options then (Null, h)
      else
        (let copy = length (cors_objs h);
             h1 = h\<lparr>cors_objs := cors_objs h @ [cors_objs h ! 0]\<rparr>
         in case options of
              Some (Object a) \<Rightarrow>
                (Object copy,
                 h1\<lparr>cors_objs :=
                      (cors_objs h1)[copy := merge_cors (cors_objs h1 ! copy) (cors_objs h1 ! a)]\<rparr>)
            | _ \<Rightarrow> (Object copy, h1)))"

definition applyToDefaults_security :: "store \<Rightarrow> setting option \<Rightarrow> setting \<times> store" where
  "applyToDefaults_security h options =
     (if \<not> truthy options then (Null, h)
      else
        (let copy = length (security_objs h);
             h1 = h\<lparr>security_objs := security_objs h @ [security_objs h ! 0]\<rparr>
         in case options of
              Some (Object a) \<Rightarrow>
                (Object copy,
                 h1\<lparr>security_objs :=
                      (security_objs h1)[copy :=
                         merge_security (security_objs h1 ! copy) (security_objs h1 ! a)]\<rparr>)
            | _ \<Rightarrow> (Object copy, h1)))"

subsection \<open>The constructor \<^verbatim>\<open>internals.Realm\<close>\<close>

text \<open>
  Lines 183-215 on the object under \<^verbatim>\<open>this.settings.cors\<close>. Reading a property of
  \<^verbatim>\<open>undefined\<close> throws; \<^verbatim>\<open>concat(undefined)\<close> appends \<^verbatim>\<open>undefined\<close>, which \<^verbatim>\<open>join\<close>
  prints as the empty string. With an empty origin list \<^verbatim>\<open>_origin\<close> is not assigned.
\<close>

definition concat_array :: "string list \<Rightarrow> string list option \<Rightarrow> string list" where
  "concat_array xs ys = xs @ (case ys of None \<Rightarrow> [[]] | Some zs \<Rightarrow> zs)"

definition derive_cors :: "cors_obj \<Rightarrow> error + cors_obj" where
  "derive_cors ob =
     (case (headers ob, methods ob, exposedHeaders ob) of
        (Some hdrs, Some mths, Some exps) \<Rightarrow>
          (let ob1 = ob\<lparr>private_headers :=
                          Some (join '', '' (concat_array hdrs (additionalHeaders ob))),
                        private_methods :=
                          Some (join '', '' (concat_array mths (additionalMethods ob))),
                        private_exposedHeaders :=
                          Some (join '', '' (concat_array exps (additionalExposedHeaders ob)))\<rparr>
           in (case origin ob1 of
                 None \<Rightarrow> Inl TypeError
               | Some og \<Rightarrow>
                   (case cors_origin (matchOrigin ob1 = Some True) og of
                      Inl e \<Rightarrow> Inl e
                    | Inr None \<Rightarrow> Inr ob1
                    | Inr (Some x) \<Rightarrow> Inr (ob1\<lparr>private_origin := Some x\<rparr>))))
      | _ \<Rightarrow> Inl TypeError)"

text \<open>
  Lines 220-255 on the object under \<^verbatim>\<open>this.settings.security\<close>: \<^verbatim>\<open>_hsts\<close> and
  \<^verbatim>\<open>_xframe\<close> are assigned only when the setting is truthy.
\<close>

definition derive_security :: "security_obj \<Rightarrow> error + security_obj" where
  "derive_security ob =
     (let ob1 = (case hsts_header (hsts ob) of
                   None \<Rightarrow> ob
                 | Some v \<Rightarrow> ob\<lparr>private_hsts := Some v\<rparr>)
      in case xframe_header (xframe ob1) of
           Inl e \<Rightarrow> Inl e
         | Inr None \<Rightarrow> Inr ob1
         | Inr (Some v) \<Rightarrow> Inr (ob1\<lparr>private_xframe := Some v\<rparr>))"

text \<open>
  The two blocks on the store. When an assertion throws, the object under construction
  is unreachable; the model leaves it as it was before the block.
\<close>

definition generate_cors :: "store \<Rightarrow> setting \<Rightarrow> (error + unit) \<times> store" where
  "generate_cors h c =
     (case c of
        Object a \<Rightarrow>
          (case derive_cors (cors_objs h ! a) of
             Inl e \<Rightarrow> (Inl e, h)
           | Inr ob \<Rightarrow> (Inr (), h\<lparr>cors_objs := (cors_objs h)[a := ob]\<rparr>))
      | _ \<Rightarrow> (Inr (), h))"

definition generate_security :: "store \<Rightarrow> setting \<Rightarrow> (error + unit) \<times> store" where
  "generate_security h s =
     (case s of
        Object a \<Rightarrow>
          (case derive_security (security_objs h ! a) of
             Inl e \<Rightarrow> (Inl e, h)
           | Inr ob \<Rightarrow> (Inr (), h\<lparr>security_objs := (security_objs h)[a := ob]\<rparr>))
      | _ \<Rightarrow> (Inr (), h))"

text \<open>Line 153: the location is absent, empty, or does not end with a slash.\<close>

definition location_ok :: "string option \<Rightarrow> bool" where
  "location_ok l = (case l of None \<Rightarrow> True | Some s \<Rightarrow> s = [] \<or> last s \<noteq> CHR ''/'')"

text \<open>The two assignments to \<^verbatim>\<open>this.settings\<close> of lines 182 and 219.\<close>

definition set_cors :: "store \<Rightarrow> nat \<Rightarrow> setting \<Rightarrow> store" where
  "set_cors h a c = h\<lparr>server_objs := (server_objs h)[a := (server_objs h ! a)\<lparr>cors := Some c\<rparr>]\<rparr>"

definition set_security :: "store \<Rightarrow> nat \<Rightarrow> setting \<Rightarrow> store" where
  "set_security h a s =
     h\<lparr>server_objs := (server_objs h)[a := (server_objs h ! a)\<lparr>security := Some s\<rparr>]\<rparr>"

text \<open>Lines 182-215 and lines 219-255, on the settings at an address.\<close>

definition cors_block :: "store \<Rightarrow> nat \<Rightarrow> (error + unit) \<times> store" where
  "cors_block h settings =
     (case applyToDefaults_cors h (cors (server_objs h ! settings)) of
        (c, h2) \<Rightarrow> generate_cors (set_cors h2 settings c) c)"

definition security_block :: "store \<Rightarrow> nat \<Rightarrow> (error + unit) \<times> store" where
  "security_block h settings =
     (case applyToDefaults_security h (security (server_objs h ! settings)) of
        (s, h2) \<Rightarrow> generate_security (set_security h2 settings s) s)"

text \<open>
  \<^verbatim>\<open>new Realm(options)\<close>: the store before, the address of the raw options (\<open>None\<close> for
  \<^verbatim>\<open>undefined\<close> and \<^verbatim>\<open>null\<close>); the result is the error thrown or the address of
  \<^verbatim>\<open>this.settings\<close>, and the store after.
\<close>

definition Realm :: "store \<Rightarrow> nat option \<Rightarrow> (error + nat) \<times> store" where
  "Realm h options =
     (case applyToDefaultsWithShallow h options of
        (settings, h1) \<Rightarrow>
          if \<not> location_ok (location (server_objs h1 ! settings))
            then (Inl LocationTrailingSlash, h1)
          else
            (case assert_timeouts (timeout (server_objs h1 ! settings)) of
               Inl e \<Rightarrow> (Inl e, h1)
             | Inr u \<Rightarrow>
                 (case cors_block h1 settings of
                    (Inl e, h4) \<Rightarrow> (Inl e, h4)
                  | (Inr u, h4) \<Rightarrow>
                      (case security_block h4 settings of
                         (Inl e, h7) \<Rightarrow> (Inl e, h7)
                       | (Inr u, h7) \<Rightarrow> (Inr settings, h7)))))"

section \<open>The server constructor (lib/xxx.js, \<^verbatim>\<open>internals.XXX\<close>)\<close>

text \<open>
  Lines 38-49 and 92-110: the arguments are classified, the realm is built from
  \<^verbatim>\<open>args.options\<close>, and the host and port are settled. An options object is named by
  its address in the store. \<^verbatim>\<open>Path.resolve\<close> is a parameter. The \<^verbatim>\<open>uri\<close> of the
  server information is left out.
\<close>

record server_instance =
  settings_address :: nat
  unixDomainSocket :: bool
  windowsNamedPipe :: bool
  server_host :: string
  server_port :: "nat jsval"
  info_host :: string
  info_port :: "nat jsval"
  info_protocol :: string

definition starts_with :: "string \<Rightarrow> string \<Rightarrow> bool" where
  "starts_with p s \<longleftrightarrow> take (length p) s = p"

definition pipe_prefix :: string where
  "pipe_prefix = [CHR 0x5C, CHR 0x5C, CHR ''.'', CHR 0x5C] @ ''pipe'' @ [CHR 0x5C]"

definition configure ::
  "(string \<Rightarrow> string) \<Rightarrow> server_obj \<Rightarrow> nat \<Rightarrow> nat object \<Rightarrow> error + server_instance" where
  "configure Path_resolve settings address args =
     (case property args ''host'' of
        JStr h \<Rightarrow>
          (let unix = (h \<noteq> [] \<and> CHR ''/'' \<in> set h);
               pipe = (h \<noteq> [] \<and> starts_with pipe_prefix h);
               host = (if h \<noteq> [] then
                         (if unix then Path_resolve h else if pipe then h else toLowerCase h)
                       else []);
               p = (if property args ''port'' \<noteq> JUndefined then property args ''port''
                    else if tls settings \<noteq> None then JNum (Fin 443) else JNum (Fin 80))
           in if unix \<and> property args ''port'' \<noteq> JUndefined then Inl PortWithUnixDomainSocket
              else if pipe \<and> property args ''port'' \<noteq> JUndefined then Inl PortWithWindowsNamedPipe
              else Inr \<lparr>settings_address = address,
                        unixDomainSocket = unix, windowsNamedPipe = pipe,
                        server_host = host, server_port = p,
                        info_host = (if host \<noteq> [] then host else ''0.0.0.0''),
                        info_port = (if unix \<or> pipe then JNum (Fin 0)
                                     else if ToBoolean p then p else JNum (Fin 0)),
                        info_protocol = (if unix then ''unix'' else if pipe then ''windows''
                                         else if tls settings \<noteq> None then ''https'' else ''http'')\<rparr>)
      | JUndefined \<Rightarrow>
          (let p = (if property args ''port'' \<noteq> JUndefined then property args ''port''
                    else if tls settings \<noteq> None then JNum (Fin 443) else JNum (Fin 80))
           in Inr \<lparr>settings_address = address,
                   unixDomainSocket = False, windowsNamedPipe = False,
                   server_host = [], server_port = p,
                   info_host = ''0.0.0.0'',
                   info_port = (if ToBoolean p then p else JNum (Fin 0)),
                   info_protocol = (if tls settings \<noteq> None then ''https'' else ''http'')\<rparr>)
      | _ \<Rightarrow> Inl TypeError)"

definition Server ::
  "(string \<Rightarrow> string) \<Rightarrow> store \<Rightarrow> nat jsval list \<Rightarrow> (error + server_instance) \<times> store" where
  "Server Path_resolve h arguments =
     (case port arguments of
        Inl e \<Rightarrow> (Inl e, h)
      | Inr args \<Rightarrow>
          (case Realm h (case property args ''options'' of JObj p \<Rightarrow> Some p | _ \<Rightarrow> None) of
             (Inl e, h') \<Rightarrow> (Inl e, h')
           | (Inr settings, h') \<Rightarrow>
               (configure Path_resolve (server_objs h' ! settings) settings args, h')))"

section \<open>Stores with the caller's options\<close>

text \<open>
  The store of the module with one raw options object at address 1 of the server
  objects, and the objects it may name under \<^verbatim>\<open>cors\<close> and \<^verbatim>\<open>security\<close> from address 1
  on; the objects with no property set.
\<close>

definition with_options :: "server_obj \<Rightarrow> cors_obj list \<Rightarrow> security_obj list \<Rightarrow> store" where
  "with_options raw cs ss =
     \<lparr>server_objs = [defaults_server, raw], cors_objs = defaults_cors # cs,
      security_objs = defaults_security # ss\<rparr>"

definition empty_cors :: cors_obj where
  "empty_cors =
     \<lparr>origin = None, isOriginExposed = None, matchOrigin = None, maxAge = None,
      headers = None, additionalHeaders = None, methods = None, additionalMethods = None,
      exposedHeaders = None, additionalExposedHeaders = None, credentials = None,
      private_headers = None, private_methods = None, private_exposedHeaders = None,
      private_origin = None\<rparr>"

definition empty_security :: security_obj where
  "empty_security =
     \<lparr>hsts = None, xframe = None, xss = None, noOpen = None, noSniff = None,
      private_hsts = None, private_xframe = None\<rparr>"

text \<open>The number a timeout compares as.\<close>

fun millis :: "duration option \<Rightarrow> int" where
  "millis None = 0"
| "millis (Some d) = ms d"

section \<open>The admission gate (lib/xxx.js, \<^verbatim>\<open>_dispatch\<close>)\<close>

text \<open>
  \<^verbatim>\<open>Boom.serverTimeout(message, data)\<close> (a library outside the repository) is the error
  of status 503 with that message and those data.
\<close>

record 'l boom =
  statusCode :: nat
  message :: string
  data :: 'l

definition serverTimeout :: "string \<Rightarrow> 'l \<Rightarrow> 'l boom" where
  "serverTimeout m d = \<lparr>statusCode = 503, message = m, data = d\<rparr>"

text \<open>
  What one call of the function returned by \<^verbatim>\<open>_dispatch\<close> does to its collaborators:
  the entries it logs, the replies it writes itself with \<^verbatim>\<open>request._reply\<close>, how often
  it runs \<^verbatim>\<open>request._execute\<close>, and the responses the request has got in the end.
\<close>

record ('l, 'r) dispatched =
  logged :: "(string list \<times> 'l) list"
  replied :: "'l boom list"
  executed :: nat
  responses :: "'r list"

text \<open>
  Modelled from the spec: \<^verbatim>\<open>Request.prototype._reply\<close> and \<^verbatim>\<open>_execute\<close> are in
  lib/request.js, which is not among the sources. \<^verbatim>\<open>_reply(err)\<close> produces the response
  for the error (\<open>reply\<close>); \<^verbatim>\<open>_execute()\<close> runs the request pipeline, which produces
  the responses \<open>execute req\<close>. The value \<open>check\<close> is what \<^verbatim>\<open>self._heavy.check()\<close>
  returns (false when the server is overloaded) and \<open>load\<close> is \<^verbatim>\<open>self.load\<close>.
\<close>

definition dispatch ::
  "('l boom \<Rightarrow> 'r) \<Rightarrow> ('q \<Rightarrow> 'r list) \<Rightarrow> bool \<Rightarrow> 'l \<Rightarrow> 'q \<Rightarrow> ('l, 'r) dispatched" where
  "dispatch reply execute check load req =
     (if \<not> check then
        \<lparr>logged = [([''hapi'', ''load''], load)],
         replied = [serverTimeout ''Server under heavy load'' load],
         executed = 0,
         responses = [reply (serverTimeout ''Server under heavy load'' load)]\<rparr>
      else
        \<lparr>logged = [], replied = [], executed = 1, responses = execute req\<rparr>)"

section \<open>Start and stop (lib/xxx.js, \<^verbatim>\<open>_start\<close>, \<^verbatim>\<open>_init\<close>, \<^verbatim>\<open>_stop\<close>)\<close>

text \<open>
  A connection is a socket of the runtime with its remote address and port, either of
  which may be \<^verbatim>\<open>undefined\<close>. The registry \<^verbatim>\<open>this._connections\<close> maps the key
  \<^verbatim>\<open>remoteAddress + ':' + remotePort\<close> to the connection.
\<close>

record connection =
  socket_id :: nat
  remoteAddress :: "string option"
  remotePort :: "nat option"

definition connection_key :: "connection \<Rightarrow> string" where
  "connection_key c =
     (case remoteAddress c of None \<Rightarrow> ''undefined'' | Some a \<Rightarrow> a) @ '':''
     @ (case remotePort c of None \<Rightarrow> ''undefined'' | Some p \<Rightarrow> decimal p)"

text \<open>
  The state that \<^verbatim>\<open>_start\<close>, \<^verbatim>\<open>_init\<close>, \<^verbatim>\<open>_stop\<close> and the handlers they install read
  and write: the fields \<^verbatim>\<open>_started\<close> and \<^verbatim>\<open>_connections\<close> of the server, and the state
  of its collaborators, which is the load monitor, the listener with its handlers and
  open sockets, the pending timer, the callbacks left to the next tick and the
  callbacks already invoked. The registry is an object whose keys are enumerated in
  the order of their insertion, so it is an association list.
\<close>

datatype listener_state = Idle | Binding | Listening | Closing

record server_state =
  started :: bool
  connections :: "(string \<times> connection) list"
  heavy_started :: bool
  listener :: listener_state
  listening_handlers :: nat
  connection_handlers :: nat
  close_handlers :: "(nat \<times> string) list"
  open_sockets :: "connection list"
  destroyed :: "connection list"
  timeoutId :: "nat option"
  tick_start :: nat
  tick_stop :: nat
  start_callbacks :: nat
  stop_callbacks :: nat

definition constructed :: server_state where
  "constructed =
     \<lparr>started = False, connections = [], heavy_started = False, listener = Idle,
      listening_handlers = 0, connection_handlers = 0, close_handlers = [],
      open_sockets = [], destroyed = [], timeoutId = None, tick_start = 0, tick_stop = 0,
      start_callbacks = 0, stop_callbacks = 0\<rparr>"

text \<open>
  \<^verbatim>\<open>_init\<close> (lines 219-262): the load monitor is started, the registry is set to the
  empty object, and the two handlers are installed on the listener.
\<close>

definition init :: "server_state \<Rightarrow> server_state" where
  "init s =
     s\<lparr>heavy_started := True,
       connections := [],
       listening_handlers := listening_handlers s + 1,
       connection_handlers := connection_handlers s + 1\<rparr>"

text \<open>\<^verbatim>\<open>this.listener.listen(...)\<close>: the listener starts to bind.\<close>

definition listen :: "server_state \<Rightarrow> server_state" where
  "listen s = s\<lparr>listener := Binding\<rparr>"

text \<open>
  \<^verbatim>\<open>_start\<close> (lines 198-216): on a started server the callback is left to the next
  tick; otherwise the server is marked started, initialised, and then told to listen.
\<close>

definition start :: "server_state \<Rightarrow> server_state" where
  "start s =
     (if started s then s\<lparr>tick_start := tick_start s + 1\<rparr>
      else listen (init (s\<lparr>started := True\<rparr>)))"

text \<open>
  \<^verbatim>\<open>_stop\<close> (lines 271-299), with \<^verbatim>\<open>options.timeout\<close> as an optional number: the
  timeout is 5000 when it is absent or 0; on a server that is not started the callback
  is left to the next tick; otherwise the server is marked stopped, the load monitor
  is stopped, the timer is set and the listener is told to close.
\<close>

definition stop :: "nat option \<Rightarrow> server_state \<Rightarrow> server_state" where
  "stop timeout_option s =
     (let t = (case timeout_option of None \<Rightarrow> 5000 | Some n \<Rightarrow> if n = 0 then 5000 else n)
      in if \<not> started s then s\<lparr>tick_stop := tick_stop s + 1\<rparr>
         else s\<lparr>started := False, heavy_started := False, timeoutId := Some t,
                listener := Closing\<rparr>)"

text \<open>
  The handlers. \<^verbatim>\<open>onListening\<close> invokes the callback of start. \<^verbatim>\<open>_onConnection\<close>
  registers the connection under its key and installs the close handler, which deletes
  the key. The timer's function destroys every connection in the registry. The
  function given to \<^verbatim>\<open>listener.close\<close> removes the connection handler, clears the
  timer and invokes the callback of stop, with no argument.
\<close>

definition onListening :: "server_state \<Rightarrow> server_state" where
  "onListening s =
     s\<lparr>start_callbacks := start_callbacks s + listening_handlers s, listening_handlers := 0\<rparr>"

definition onConnection :: "connection \<Rightarrow> server_state \<Rightarrow> server_state" where
  "onConnection c s =
     s\<lparr>connections := AList.update (connection_key c) c (connections s),
       close_handlers := close_handlers s @ [(socket_id c, connection_key c)]\<rparr>"

definition onClose :: "string \<Rightarrow> server_state \<Rightarrow> server_state" where
  "onClose key s = s\<lparr>connections := AList.delete key (connections s)\<rparr>"

definition onTimeout :: "server_state \<Rightarrow> server_state" where
  "onTimeout s = s\<lparr>destroyed := destroyed s @ map snd (connections s)\<rparr>"

definition onListenerClosed :: "server_state \<Rightarrow> server_state" where
  "onListenerClosed s =
     s\<lparr>connection_handlers := connection_handlers s - 1,
       timeoutId := None,
       stop_callbacks := stop_callbacks s + 1\<rparr>"

text \<open>
  The events of the runtime and when each can occur. A client connects while the
  listener listens; a socket closes while it is open; the timer fires while it is
  pending; the listener's close completes when it is closing and no socket is open
  (the contract of \<^verbatim>\<open>net.Server.close\<close>); a tick runs the callbacks left to it.
\<close>

datatype event =
    Bound
  | Connect connection
  | SocketClosed nat
  | TimerFired
  | ListenerClosed
  | Tick

fun possible :: "event \<Rightarrow> server_state \<Rightarrow> bool" where
  "possible Bound s = (listener s = Binding)"
| "possible (Connect c) s =
     (listener s = Listening \<and> socket_id c \<notin> socket_id ` set (open_sockets s))"
| "possible (SocketClosed i) s = (i \<in> socket_id ` set (open_sockets s))"
| "possible TimerFired s = (timeoutId s \<noteq> None)"
| "possible ListenerClosed s = (listener s = Closing \<and> open_sockets s = [])"
| "possible Tick s = (0 < tick_start s + tick_stop s)"

text \<open>
  What the runtime does at an event, and the handlers of the server it runs: every
  installed connection handler at a connection; at the close of a socket, which then
  is no longer open, its close handlers, once each.
\<close>

fun fire :: "event \<Rightarrow> server_state \<Rightarrow> server_state" where
  "fire Bound s = onListening (s\<lparr>listener := Listening\<rparr>)"
| "fire (Connect c) s =
     (onConnection c ^^ connection_handlers s) (s\<lparr>open_sockets := open_sockets s @ [c]\<rparr>)"
| "fire (SocketClosed i) s =
     fold onClose (map snd (filter (\<lambda>h. fst h = i) (close_handlers s)))
       (s\<lparr>open_sockets := filter (\<lambda>c. socket_id c \<noteq> i) (open_sockets s),
          close_handlers := filter (\<lambda>h. fst h \<noteq> i) (close_handlers s)\<rparr>)"
| "fire TimerFired s = onTimeout (s\<lparr>timeoutId := None\<rparr>)"
| "fire ListenerClosed s = onListenerClosed (s\<lparr>listener := Idle\<rparr>)"
| "fire Tick s =
     s\<lparr>start_callbacks := start_callbacks s + tick_start s,
       stop_callbacks := stop_callbacks s + tick_stop s,
       tick_start := 0, tick_stop := 0\<rparr>"

text \<open>
  A run: events in order, each possible when it occurs. An event is due when the
  runtime owes it without any act of a client: the binding, a pending tick, the
  pending timer, the close of a destroyed socket, the completion of the listener's
  close.
\<close>

fun run :: "event list \<Rightarrow> server_state \<Rightarrow> server_state option" where
  "run [] s = Some s"
| "run (e # es) s = (if possible e s then run es (fire e s) else None)"

definition due :: "server_state \<Rightarrow> bool" where
  "due s \<longleftrightarrow>
     possible Bound s \<or> possible Tick s \<or> possible TimerFired s
     \<or> (\<exists>c \<in> set (open_sockets s). socket_id c \<in> socket_id ` set (destroyed s))
     \<or> possible ListenerClosed s"

text \<open>
  A client of a server that listens on a UNIX domain socket: the runtime gives such a
  connection no remote address and no remote port.
\<close>

definition unix_client :: "nat \<Rightarrow> connection" where
  "unix_client i = \<lparr>socket_id = i, remoteAddress = None, remotePort = None\<rparr>"

section \<open>Resolution as a function of the options\<close>

text \<open>
  What a property that may name an object holds, with the object in place of its
  address.
\<close>

datatype 'a deep = Unset | DNull | DFlag bool | DObject 'a

definition deep_cors :: "store \<Rightarrow> setting option \<Rightarrow> cors_obj deep" where
  "deep_cors h v =
     (case v of
        None \<Rightarrow> Unset
      | Some Null \<Rightarrow> DNull
      | Some (Flag b) \<Rightarrow> DFlag b
      | Some (Object a) \<Rightarrow> DObject (cors_objs h ! a))"

definition deep_security :: "store \<Rightarrow> setting option \<Rightarrow> security_obj deep" where
  "deep_security h v =
     (case v of
        None \<Rightarrow> Unset
      | Some Null \<Rightarrow> DNull
      | Some (Flag b) \<Rightarrow> DFlag b
      | Some (Object a) \<Rightarrow> DObject (security_objs h ! a))"

text \<open>The options the constructor reads at an address, \<^verbatim>\<open>{}\<close> for none.\<close>

definition raw_options :: "store \<Rightarrow> nat option \<Rightarrow> server_obj" where
  "raw_options h options = (case options of None \<Rightarrow> empty_server | Some p \<Rightarrow> server_objs h ! p)"

text \<open>
  The resolver of the specification: a function of the raw options alone, over the
  table of defaults. The CORS and the security settings are \<^verbatim>\<open>null\<close> unless the option
  is \<^verbatim>\<open>true\<close> or an object, and are then derived from the defaults with the option's
  properties over them.
\<close>

definition resolve_cors :: "cors_obj deep \<Rightarrow> error + cors_obj deep" where
  "resolve_cors v =
     (case v of
        DFlag True \<Rightarrow> map_sum id DObject (derive_cors defaults_cors)
      | DObject ob \<Rightarrow> map_sum id DObject (derive_cors (merge_cors defaults_cors ob))
      | _ \<Rightarrow> Inr DNull)"

definition resolve_security :: "security_obj deep \<Rightarrow> error + security_obj deep" where
  "resolve_security v =
     (case v of
        DFlag True \<Rightarrow> map_sum id DObject (derive_security defaults_security)
      | DObject ob \<Rightarrow> map_sum id DObject (derive_security (merge_security defaults_security ob))
      | _ \<Rightarrow> Inr DNull)"

record resolved =
  resolved_location :: "string option"
  resolved_timeout :: timeout_obj
  resolved_tls :: "(string \<times> string) option"
  resolved_cors :: "cors_obj deep"
  resolved_security :: "security_obj deep"

definition resolve ::
  "server_obj \<Rightarrow> cors_obj deep \<Rightarrow> security_obj deep \<Rightarrow> error + resolved" where
  "resolve raw c s =
     (let l = override (location defaults_server) (location raw);
          t = merge_timeout (timeout defaults_server) (timeout raw)
      in if \<not> location_ok l then Inl LocationTrailingSlash
         else
           (case assert_timeouts t of
              Inl e \<Rightarrow> Inl e
            | Inr u \<Rightarrow>
                (case resolve_cors c of
                   Inl e \<Rightarrow> Inl e
                 | Inr c' \<Rightarrow>
                     (case resolve_security s of
                        Inl e \<Rightarrow> Inl e
                      | Inr s' \<Rightarrow>
                          Inr \<lparr>resolved_location = l, resolved_timeout = t,
                               resolved_tls = override (tls defaults_server) (tls raw),
                               resolved_cors = c', resolved_security = s'\<rparr>))))"

text \<open>
  What a construction has produced, read from the store after it: the error, or the
  settings with their objects in place.
\<close>

definition outcome :: "(error + nat) \<times> store \<Rightarrow> error + resolved" where
  "outcome rh =
     (case rh of
        (Inl e, h) \<Rightarrow> Inl e
      | (Inr a, h) \<Rightarrow>
          Inr \<lparr>resolved_location = location (server_objs h ! a),
               resolved_timeout = timeout (server_objs h ! a),
               resolved_tls = tls (server_objs h ! a),
               resolved_cors = deep_cors h (cors (server_objs h ! a)),
               resolved_security = deep_security h (security (server_objs h ! a))\<rparr>)"

text \<open>The six derived header strings of an outcome, where they are set.\<close>

definition cors_strings :: "cors_obj deep \<Rightarrow> string option list" where
  "cors_strings c =
     (case c of
        DObject ob \<Rightarrow>
          [private_headers ob, private_methods ob, private_exposedHeaders ob,
           map_option qualifiedString (private_origin ob)]
      | _ \<Rightarrow> [None, None, None, None])"

definition security_strings :: "security_obj deep \<Rightarrow> string option list" where
  "security_strings s =
     (case s of
        DObject ob \<Rightarrow> [private_hsts ob, private_xframe ob]
      | _ \<Rightarrow> [None, None])"

definition header_strings :: "error + resolved \<Rightarrow> error + string option list" where
  "header_strings r =
     map_sum id (\<lambda>v. cors_strings (resolved_cors v) @ security_strings (resolved_security v)) r"

text \<open>
  A store in which a construction can take place: the defaults of the module are at
  address 0, and the options, when given, are an object of the store whose \<^verbatim>\<open>cors\<close> and
  \<^verbatim>\<open>security\<close> properties name objects of the store.
\<close>

definition has_defaults :: "store \<Rightarrow> bool" where
  "has_defaults h \<longleftrightarrow>
     server_objs h \<noteq> [] \<and> server_objs h ! 0 = defaults_server
     \<and> cors_objs h \<noteq> [] \<and> cors_objs h ! 0 = defaults_cors
     \<and> security_objs h \<noteq> [] \<and> security_objs h ! 0 = defaults_security"

definition valid_setting :: "nat \<Rightarrow> setting option \<Rightarrow> bool" where
  "valid_setting n v = (case v of Some (Object a) \<Rightarrow> a < n | _ \<Rightarrow> True)"

definition valid_options :: "store \<Rightarrow> nat option \<Rightarrow> bool" where
  "valid_options h options =
     (case options of
        None \<Rightarrow> True
      | Some p \<Rightarrow>
          p < length (server_objs h)
          \<and> valid_setting (length (cors_objs h)) (cors (server_objs h ! p))
          \<and> valid_setting (length (security_objs h)) (security (server_objs h ! p)))"

text \<open>
  What the first merge adds to the store when the defaults are those of the module:
  the copies of the objects the options name, and the new settings object.
\<close>

definition cloned :: "'a list \<Rightarrow> setting option \<Rightarrow> 'a list" where
  "cloned xs v = (case v of Some (Object a) \<Rightarrow> [xs ! a] | _ \<Rightarrow> [])"

definition merged_setting :: "nat \<Rightarrow> setting option \<Rightarrow> setting option" where
  "merged_setting n v =
     (case v of
        Some (Object a) \<Rightarrow> Some (Object n)
      | Some (Flag b) \<Rightarrow> v
      | _ \<Rightarrow> Some (Flag False))"

definition shallow_copy :: "store \<Rightarrow> nat option \<Rightarrow> server_obj" where
  "shallow_copy h options =
     \<lparr>location = override (location defaults_server) (location (raw_options h options)),
      timeout = merge_timeout (timeout defaults_server) (timeout (raw_options h options)),
      tls = override (tls defaults_server) (tls (raw_options h options)),
      cors = merged_setting (length (cors_objs h)) (cors (raw_options h options)),
      security = merged_setting (length (security_objs h)) (security (raw_options h options))\<rparr>"

text \<open>
  Options with a CORS object and a security object: two origins, one of them with a
  wildcard, and an \<open>hsts\<close> object.
\<close>

definition example_options :: store where
  "example_options =
     with_options (empty_server\<lparr>cors := Some (Object 1), security := Some (Object 1)\<rparr>)
       [empty_cors\<lparr>origin := Some [''http://a.com'', ''http://*.b.com'']\<rparr>]
       [empty_security\<lparr>hsts := Some (HstsObject (Some 600) (Some True))\<rparr>]"

section \<open>Invariants of a started and of a stopping server\<close>

text \<open>
  The registry tracks the open connections: the open sockets are distinct, each one is
  the value the registry holds at its key, and each close handler is the one a
  connection handler registered for an open socket, with the key of that socket.
\<close>

definition tracked :: "server_state \<Rightarrow> bool" where
  "tracked s \<longleftrightarrow>
     distinct (map socket_id (open_sockets s))
     \<and> (\<forall>c \<in> set (open_sockets s). map_of (connections s) (connection_key c) = Some c)
     \<and> (\<forall>h \<in> set (close_handlers s). \<exists>c \<in> set (open_sockets s).
           socket_id c = fst h \<and> snd h = connection_key c)"

text \<open>
  A sequence of events is free of collisions when no connection arrives with the key
  of a socket that is open at that moment.
\<close>

fun collision_free :: "event list \<Rightarrow> server_state \<Rightarrow> bool" where
  "collision_free [] s = True"
| "collision_free (e # es) s =
     ((case e of
         Connect c \<Rightarrow> connection_key c \<notin> connection_key ` set (open_sockets s)
       | _ \<Rightarrow> True)
      \<and> collision_free es (fire e s))"

text \<open>
  What the runtime still has to do for a stop: fire or clear the timer, see each open
  socket closed, complete the close of the listener.
\<close>

definition pending :: "server_state \<Rightarrow> nat" where
  "pending s =
     (if timeoutId s = None then 0 else 1) + length (open_sockets s)
     + (if listener s = Closing then 1 else 0)"

text \<open>
  A started server between \<^verbatim>\<open>_start\<close> and \<^verbatim>\<open>_stop\<close>.
\<close>

definition serving :: "server_state \<Rightarrow> bool" where
  "serving s \<longleftrightarrow>
     started s \<and> (listener s = Binding \<or> listener s = Listening)
     \<and> connection_handlers s = 1 \<and> timeoutId s = None
     \<and> tick_start s = 0 \<and> tick_stop s = 0 \<and> stop_callbacks s = 0 \<and> tracked s"

text \<open>
  A server after \<^verbatim>\<open>_stop\<close>: either the listener is closing, and once the timer has
  fired every open socket has been destroyed; or the close has completed and the
  callback of stop has been invoked once.
\<close>

definition draining :: "server_state \<Rightarrow> bool" where
  "draining s \<longleftrightarrow>
     tick_start s = 0 \<and> tick_stop s = 0
     \<and> ((listener s = Closing \<and> stop_callbacks s = 0 \<and> tracked s
          \<and> (timeoutId s = None \<longrightarrow>
                socket_id ` set (open_sockets s) \<subseteq> socket_id ` set (destroyed s)))
         \<or> (listener s = Idle \<and> stop_callbacks s = 1 \<and> open_sockets s = []
             \<and> timeoutId s = None))"

section \<open>Properties of the argument classification\<close>


lemmas port_eval = port_def port_step_def coerce_def argMap_def property_def









section \<open>The store during a construction\<close>

text \<open>
  With the defaults of the module at address 0, the constructor only appends objects to
  the store and writes to the objects it has appended, and what it produces is the
  resolver applied to the options.
\<close>

lemma setting_cases:
  obtains "v = None" | "v = Some Null" | b where "v = Some (Flag b)"
    | a where "v = Some (Object a)"
  by (cases v) (auto intro: setting.exhaust)

lemma merge_cors_property_default:
  "merge_cors_property h (Some (Flag False)) v =
     (merged_setting (length (cors_objs h)) v,
      h\<lparr>cors_objs := cors_objs h @ cloned (cors_objs h) v\<rparr>)"
  by (cases v rule: setting_cases)
     (simp_all add: merge_cors_property_def clone_cors_def merged_setting_def cloned_def)

lemma merge_security_property_default:
  "merge_security_property h (Some (Flag False)) v =
     (merged_setting (length (security_objs h)) v,
      h\<lparr>security_objs := security_objs h @ cloned (security_objs h) v\<rparr>)"
  by (cases v rule: setting_cases)
     (simp_all add: merge_security_property_def clone_security_def merged_setting_def
        cloned_def)

lemma defaults_server_sel:
  "cors defaults_server = Some (Flag False)" "security defaults_server = Some (Flag False)"
  by (simp_all add: defaults_server_def)

lemma applyToDefaultsWithShallow_eq:
  "has_defaults h \<Longrightarrow>
     applyToDefaultsWithShallow h options =
       (length (server_objs h),
        h\<lparr>cors_objs := cors_objs h @ cloned (cors_objs h) (cors (raw_options h options)),
          security_objs :=
            security_objs h @ cloned (security_objs h) (security (raw_options h options)),
          server_objs := server_objs h @ [shallow_copy h options]\<rparr>)"
  unfolding applyToDefaultsWithShallow_def has_defaults_def
  by (simp add: Let_def defaults_server_sel clone_cors_def clone_security_def
        merge_cors_property_default merge_security_property_default shallow_copy_def
        raw_options_def)

lemma applyToDefaults_cors_eq:
  assumes "xs \<noteq> []" "cors_objs h = xs" "valid_setting (length xs) v"
  shows "applyToDefaults_cors h v =
     (if truthy v then
        (Object (length xs),
         h\<lparr>cors_objs := xs @ [case v of Some (Object a) \<Rightarrow> merge_cors (xs ! 0) (xs ! a)
                                  | _ \<Rightarrow> xs ! 0]\<rparr>)
      else (Null, h))"
  using assms
  by (cases v rule: setting_cases)
     (simp_all add: applyToDefaults_cors_def Let_def valid_setting_def nth_append)

lemma applyToDefaults_security_eq:
  assumes "xs \<noteq> []" "security_objs h = xs" "valid_setting (length xs) v"
  shows "applyToDefaults_security h v =
     (if truthy v then
        (Object (length xs),
         h\<lparr>security_objs := xs @ [case v of Some (Object a) \<Rightarrow> merge_security (xs ! 0) (xs ! a)
                                  | _ \<Rightarrow> xs ! 0]\<rparr>)
      else (Null, h))"
  using assms
  by (cases v rule: setting_cases)
     (simp_all add: applyToDefaults_security_def Let_def valid_setting_def nth_append)

lemma resolve_cors_falsy: "\<not> truthy v \<Longrightarrow> resolve_cors (deep_cors g v) = Inr DNull"
  by (cases v rule: setting_cases) (simp_all add: resolve_cors_def deep_cors_def)

lemma resolve_cors_truthy:
  "truthy v \<Longrightarrow> cors_objs g ! 0 = defaults_cors \<Longrightarrow>
     resolve_cors (deep_cors g v) =
       map_sum id DObject
         (derive_cors (case v of Some (Object a) \<Rightarrow> merge_cors (cors_objs g ! 0) (cors_objs g ! a)
                       | _ \<Rightarrow> cors_objs g ! 0))"
  by (cases v rule: setting_cases) (simp_all add: resolve_cors_def deep_cors_def)

lemma resolve_security_falsy: "\<not> truthy v \<Longrightarrow> resolve_security (deep_security g v) = Inr DNull"
  by (cases v rule: setting_cases) (simp_all add: resolve_security_def deep_security_def)

lemma resolve_security_truthy:
  "truthy v \<Longrightarrow> security_objs g ! 0 = defaults_security \<Longrightarrow>
     resolve_security (deep_security g v) =
       map_sum id DObject
         (derive_security
            (case v of Some (Object a) \<Rightarrow> merge_security (security_objs g ! 0) (security_objs g ! a)
             | _ \<Rightarrow> security_objs g ! 0))"
  by (cases v rule: setting_cases) (simp_all add: resolve_security_def deep_security_def)

lemma cors_block_spec:
  assumes ne: "cors_objs g \<noteq> []" and d: "cors_objs g ! 0 = defaults_cors"
    and v: "valid_setting (length (cors_objs g)) (cors (server_objs g ! s))"
    and b: "cors_block g s = (r, g')"
  shows "security_objs g' = security_objs g \<and> (\<exists>cs. cors_objs g' = cors_objs g @ cs)
     \<and> (\<exists>c. server_objs g' = (server_objs g)[s := (server_objs g ! s)\<lparr>cors := Some c\<rparr>]
          \<and> (case r of
                Inl e \<Rightarrow> resolve_cors (deep_cors g (cors (server_objs g ! s))) = Inl e
              | Inr u \<Rightarrow> resolve_cors (deep_cors g (cors (server_objs g ! s)))
                          = Inr (deep_cors g' (Some c))))"
proof (cases "truthy (cors (server_objs g ! s))")
  case False
  with b have "r = Inr ()" "g' = set_cors g s Null"
    by (simp_all add: cors_block_def applyToDefaults_cors_def generate_cors_def)
  then show ?thesis
    using resolve_cors_falsy [OF False] by (auto simp: set_cors_def deep_cors_def)
next
  case True
  let ?v = "cors (server_objs g ! s)"
  let ?m = "case ?v of Some (Object a) \<Rightarrow> merge_cors (cors_objs g ! 0) (cors_objs g ! a)
            | _ \<Rightarrow> cors_objs g ! 0"
  let ?n = "length (cors_objs g)"
  have a: "applyToDefaults_cors g ?v = (Object ?n, g\<lparr>cors_objs := cors_objs g @ [?m]\<rparr>)"
    using applyToDefaults_cors_eq [OF ne refl v] True by simp
  have res: "resolve_cors (deep_cors g ?v) = map_sum id DObject (derive_cors ?m)"
    by (rule resolve_cors_truthy [OF True d])
  show ?thesis
  proof (cases "derive_cors ?m")
    case (Inl e)
    with b a have "r = Inl e"
      "g' = set_cors (g\<lparr>cors_objs := cors_objs g @ [?m]\<rparr>) s (Object ?n)"
      by (simp_all add: cors_block_def generate_cors_def set_cors_def)
    then show ?thesis using res Inl by (auto simp: set_cors_def)
  next
    case (Inr ob)
    with b a have "r = Inr ()"
      "g' = (set_cors (g\<lparr>cors_objs := cors_objs g @ [?m]\<rparr>) s (Object ?n))
               \<lparr>cors_objs := cors_objs g @ [ob]\<rparr>"
      by (simp_all add: cors_block_def generate_cors_def set_cors_def)
    then show ?thesis using res Inr by (auto simp: set_cors_def deep_cors_def)
  qed
qed

lemma security_block_spec:
  assumes ne: "security_objs g \<noteq> []" and d: "security_objs g ! 0 = defaults_security"
    and v: "valid_setting (length (security_objs g)) (security (server_objs g ! s))"
    and b: "security_block g s = (r, g')"
  shows "cors_objs g' = cors_objs g \<and> (\<exists>cs. security_objs g' = security_objs g @ cs)
     \<and> (\<exists>c. server_objs g' = (server_objs g)[s := (server_objs g ! s)\<lparr>security := Some c\<rparr>]
          \<and> (case r of
                Inl e \<Rightarrow> resolve_security (deep_security g (security (server_objs g ! s))) = Inl e
              | Inr u \<Rightarrow> resolve_security (deep_security g (security (server_objs g ! s)))
                          = Inr (deep_security g' (Some c))))"
proof (cases "truthy (security (server_objs g ! s))")
  case False
  with b have "r = Inr ()" "g' = set_security g s Null"
    by (simp_all add: security_block_def applyToDefaults_security_def generate_security_def)
  then show ?thesis
    using resolve_security_falsy [OF False] by (auto simp: set_security_def deep_security_def)
next
  case True
  let ?v = "security (server_objs g ! s)"
  let ?m = "case ?v of Some (Object a) \<Rightarrow>
                merge_security (security_objs g ! 0) (security_objs g ! a)
            | _ \<Rightarrow> security_objs g ! 0"
  let ?n = "length (security_objs g)"
  have a: "applyToDefaults_security g ?v =
             (Object ?n, g\<lparr>security_objs := security_objs g @ [?m]\<rparr>)"
    using applyToDefaults_security_eq [OF ne refl v] True by simp
  have res: "resolve_security (deep_security g ?v) = map_sum id DObject (derive_security ?m)"
    by (rule resolve_security_truthy [OF True d])
  show ?thesis
  proof (cases "derive_security ?m")
    case (Inl e)
    with b a have "r = Inl e"
      "g' = set_security (g\<lparr>security_objs := security_objs g @ [?m]\<rparr>) s (Object ?n)"
      by (simp_all add: security_block_def generate_security_def set_security_def)
    then show ?thesis using res Inl by (auto simp: set_security_def)
  next
    case (Inr ob)
    with b a have "r = Inr ()"
      "g' = (set_security (g\<lparr>security_objs := security_objs g @ [?m]\<rparr>) s (Object ?n))
               \<lparr>security_objs := security_objs g @ [ob]\<rparr>"
      by (simp_all add: security_block_def generate_security_def set_security_def)
    then show ?thesis using res Inr by (auto simp: set_security_def deep_security_def)
  qed
qed


lemma deep_cors_cong: "cors_objs g = cors_objs g' \<Longrightarrow> deep_cors g v = deep_cors g' v"
  by (cases v rule: setting_cases) (simp_all add: deep_cors_def)

lemma deep_security_cong:
  "security_objs g = security_objs g' \<Longrightarrow> deep_security g v = deep_security g' v"
  by (cases v rule: setting_cases) (simp_all add: deep_security_def)

lemma first_merge_cors:
  assumes "cors_objs h1 = cors_objs h @ cloned (cors_objs h) v"
  shows "resolve_cors (deep_cors h1 (merged_setting (length (cors_objs h)) v))
           = resolve_cors (deep_cors h v)"
    and "valid_setting (length (cors_objs h1)) (merged_setting (length (cors_objs h)) v)"
  using assms
  by (cases v rule: setting_cases;
      simp add: deep_cors_def merged_setting_def cloned_def resolve_cors_def valid_setting_def)+

lemma first_merge_security:
  assumes "security_objs h1 = security_objs h @ cloned (security_objs h) v"
  shows "resolve_security (deep_security h1 (merged_setting (length (security_objs h)) v))
           = resolve_security (deep_security h v)"
    and "valid_setting (length (security_objs h1)) (merged_setting (length (security_objs h)) v)"
  using assms
  by (cases v rule: setting_cases;
      simp add: deep_security_def merged_setting_def cloned_def resolve_security_def
        valid_setting_def)+

lemma Realm_resolves:
  assumes d: "has_defaults h" and R: "Realm h options = (r, h')"
  shows "outcome (r, h') =
           resolve (raw_options h options) (deep_cors h (cors (raw_options h options)))
             (deep_security h (security (raw_options h options)))
         \<and> (\<exists>a b c. server_objs h' = server_objs h @ a \<and> cors_objs h' = cors_objs h @ b
               \<and> security_objs h' = security_objs h @ c)"
proof -
  define raw where "raw = raw_options h options"
  define s where "s = length (server_objs h)"
  define copy where "copy = shallow_copy h options"
  define h1 where "h1 = h\<lparr>cors_objs := cors_objs h @ cloned (cors_objs h) (cors raw),
          security_objs := security_objs h @ cloned (security_objs h) (security raw),
          server_objs := server_objs h @ [copy]\<rparr>"
  define l where "l = override (location defaults_server) (location raw)"
  define t where "t = merge_timeout (timeout defaults_server) (timeout raw)"
  have A: "applyToDefaultsWithShallow h options = (s, h1)"
    unfolding s_def h1_def raw_def copy_def by (rule applyToDefaultsWithShallow_eq [OF d])
  have h1: "cors_objs h1 = cors_objs h @ cloned (cors_objs h) (cors raw)"
    "security_objs h1 = security_objs h @ cloned (security_objs h) (security raw)"
    "server_objs h1 = server_objs h @ [copy]"
    by (simp_all add: h1_def)
  have copy1: "server_objs h1 ! s = copy" by (simp add: h1 s_def)
  have sel: "location copy = l" "timeout copy = t"
    "tls copy = override (tls defaults_server) (tls raw)"
    "cors copy = merged_setting (length (cors_objs h)) (cors raw)"
    "security copy = merged_setting (length (security_objs h)) (security raw)"
    by (simp_all add: shallow_copy_def copy_def l_def t_def raw_def)
  from d have ne: "cors_objs h \<noteq> []" "security_objs h \<noteq> []" "server_objs h \<noteq> []"
    and d0: "cors_objs h ! 0 = defaults_cors" "security_objs h ! 0 = defaults_security"
    by (simp_all add: has_defaults_def)
  have c1: "cors_objs h1 \<noteq> []" "cors_objs h1 ! 0 = defaults_cors"
    using ne d0 by (simp_all add: h1 nth_append)
  have s1: "security_objs h1 \<noteq> []" "security_objs h1 ! 0 = defaults_security"
    using ne d0 by (simp_all add: h1 nth_append)
  have rc: "resolve_cors (deep_cors h1 (cors copy)) = resolve_cors (deep_cors h (cors raw))"
    and vc: "valid_setting (length (cors_objs h1)) (cors copy)"
    unfolding sel by (rule first_merge_cors [OF h1(1)])+
  have rs: "resolve_security (deep_security h1 (security copy))
              = resolve_security (deep_security h (security raw))"
    and vs: "valid_setting (length (security_objs h1)) (security copy)"
    unfolding sel by (rule first_merge_security [OF h1(2)])+
  have goal_Inl: ?thesis
    if "r = Inl e" "resolve raw (deep_cors h (cors raw)) (deep_security h (security raw)) = Inl e"
      "\<exists>a b c. server_objs h' = server_objs h @ a \<and> cors_objs h' = cors_objs h @ b
               \<and> security_objs h' = security_objs h @ c" for e
    using that by (simp add: outcome_def raw_def)
  have Rl: "resolve raw cc ss =
     (if \<not> location_ok l then Inl LocationTrailingSlash
      else case assert_timeouts t of Inl e \<Rightarrow> Inl e
        | Inr u \<Rightarrow> (case resolve_cors cc of Inl e \<Rightarrow> Inl e
            | Inr c' \<Rightarrow> (case resolve_security ss of Inl e \<Rightarrow> Inl e
                | Inr s' \<Rightarrow> Inr \<lparr>resolved_location = l, resolved_timeout = t,
                               resolved_tls = override (tls defaults_server) (tls raw),
                               resolved_cors = c', resolved_security = s'\<rparr>)))" for cc ss
    unfolding resolve_def l_def t_def Let_def by (rule refl)
  have R1: "(if \<not> location_ok l then (Inl LocationTrailingSlash, h1)
          else
            (case assert_timeouts t of
               Inl e \<Rightarrow> (Inl e, h1)
             | Inr u \<Rightarrow>
                 (case cors_block h1 s of
                    (Inl e, h4) \<Rightarrow> (Inl e, h4)
                  | (Inr u, h4) \<Rightarrow>
                      (case security_block h4 s of
                         (Inl e, h7) \<Rightarrow> (Inl e, h7)
                       | (Inr u, h7) \<Rightarrow> (Inr s, h7))))) = (r, h')"
    using R unfolding Realm_def A prod.case copy1 sel by assumption
  have frame1: "\<exists>a b c. server_objs h1 = server_objs h @ a \<and> cors_objs h1 = cors_objs h @ b
               \<and> security_objs h1 = security_objs h @ c"
    by (simp add: h1)
  show ?thesis
  proof (cases "location_ok l")
    case False
    with R1 have "r = Inl LocationTrailingSlash" "h' = h1" by simp_all
    then show ?thesis using False frame1 by (intro goal_Inl) (simp_all add: Rl)
  next
    case lok: True
    show ?thesis
    proof (cases "assert_timeouts t")
      case (Inl e)
      with R1 lok have "r = Inl e" "h' = h1" by simp_all
      then show ?thesis using lok Inl frame1 by (intro goal_Inl) (simp_all add: Rl)
    next
      case tok: (Inr u)
      obtain r4 h4 where B: "cors_block h1 s = (r4, h4)" by (cases "cors_block h1 s")
      have vc1: "valid_setting (length (cors_objs h1)) (cors (server_objs h1 ! s))"
        using vc copy1 by simp
      from cors_block_spec [OF c1 vc1 B]
      obtain c cs where h4: "security_objs h4 = security_objs h1"
        "cors_objs h4 = cors_objs h1 @ cs"
        "server_objs h4 = (server_objs h1)[s := (server_objs h1 ! s)\<lparr>cors := Some c\<rparr>]"
        and r4: "case r4 of
                Inl e \<Rightarrow> resolve_cors (deep_cors h1 (cors (server_objs h1 ! s))) = Inl e
              | Inr u \<Rightarrow> resolve_cors (deep_cors h1 (cors (server_objs h1 ! s)))
                          = Inr (deep_cors h4 (Some c))"
        by blast
      have copy4: "server_objs h4 = server_objs h @ [copy\<lparr>cors := Some c\<rparr>]"
        using h4(3) by (simp add: h1 s_def copy1 [unfolded s_def h1])
      have frame4: "\<exists>a b c. server_objs h4 = server_objs h @ a \<and> cors_objs h4 = cors_objs h @ b
               \<and> security_objs h4 = security_objs h @ c"
        using h4(1,2) copy4 by (simp add: h1)
      show ?thesis
      proof (cases r4)
        case (Inl e)
        with R1 lok tok B have "r = Inl e" "h' = h4" by simp_all
        moreover have "resolve_cors (deep_cors h (cors raw)) = Inl e"
          using r4 Inl rc copy1 by simp
        ultimately show ?thesis using lok tok frame4 by (intro goal_Inl) (simp_all add: Rl)
      next
        case cok: (Inr u4)
        have rc4: "resolve_cors (deep_cors h (cors raw)) = Inr (deep_cors h4 (Some c))"
          using r4 cok rc copy1 by simp
        have nth4: "server_objs h4 ! s = copy\<lparr>cors := Some c\<rparr>"
          by (simp add: copy4 s_def)
        obtain r7 h7 where C: "security_block h4 s = (r7, h7)"
          by (cases "security_block h4 s")
        have s4: "security_objs h4 \<noteq> []" "security_objs h4 ! 0 = defaults_security"
          using s1 h4(1) by simp_all
        have vs4: "valid_setting (length (security_objs h4)) (security (server_objs h4 ! s))"
          using vs h4(1) nth4 by simp
        from security_block_spec [OF s4 vs4 C]
        obtain c' ss where h7: "cors_objs h7 = cors_objs h4"
          "security_objs h7 = security_objs h4 @ ss"
          "server_objs h7 = (server_objs h4)[s := (server_objs h4 ! s)\<lparr>security := Some c'\<rparr>]"
          and r7: "case r7 of
                Inl e \<Rightarrow> resolve_security (deep_security h4 (security (server_objs h4 ! s))) = Inl e
              | Inr u \<Rightarrow> resolve_security (deep_security h4 (security (server_objs h4 ! s)))
                          = Inr (deep_security h7 (Some c'))"
          by blast
        have rs4: "resolve_security (deep_security h4 (security (server_objs h4 ! s)))
              = resolve_security (deep_security h (security raw))"
          using rs deep_security_cong [OF h4(1)] nth4 by simp
        have copy7: "server_objs h7 = server_objs h @ [copy\<lparr>cors := Some c, security := Some c'\<rparr>]"
          using h7(3) by (simp add: copy4 nth4 [unfolded copy4] s_def)
        have frame7: "\<exists>a b c. server_objs h7 = server_objs h @ a \<and> cors_objs h7 = cors_objs h @ b
               \<and> security_objs h7 = security_objs h @ c"
          using h4(1,2) h7(1,2) copy7 by (simp add: h1)
        show ?thesis
        proof (cases r7)
          case (Inl e)
          with R1 lok tok B cok C have "r = Inl e" "h' = h7" by simp_all
          moreover have "resolve_security (deep_security h (security raw)) = Inl e"
            using r7 Inl rs4 by simp
          ultimately show ?thesis
            using lok tok rc4 frame7 by (intro goal_Inl) (simp_all add: Rl)
        next
          case (Inr u7)
          with R1 lok tok B cok C have rh: "r = Inr s" "h' = h7" by simp_all
          have rs7: "resolve_security (deep_security h (security raw))
                       = Inr (deep_security h7 (Some c'))"
            using r7 Inr rs4 by simp
          have dc: "deep_cors h7 (Some c) = deep_cors h4 (Some c)"
            by (rule deep_cors_cong [OF h7(1)])
          have nth7: "server_objs h7 ! s = copy\<lparr>cors := Some c, security := Some c'\<rparr>"
            by (simp add: copy7 s_def)
          have "outcome (r, h') =
              resolve raw (deep_cors h (cors raw)) (deep_security h (security raw))"
            using lok tok rc4 rs7 dc
            by (simp add: Rl rh outcome_def nth7 sel)
          then show ?thesis using frame7 rh by (simp add: raw_def)
        qed
      qed
    qed
  qed
qed

lemma has_defaults_extend:
  assumes "has_defaults h"
    and "server_objs h' = server_objs h @ a" "cors_objs h' = cors_objs h @ b"
    and "security_objs h' = security_objs h @ c"
  shows "has_defaults h'"
  using assms by (simp add: has_defaults_def nth_append)

lemma raw_options_extend:
  assumes "valid_options h options"
    and "server_objs h' = server_objs h @ a" "cors_objs h' = cors_objs h @ b"
    and "security_objs h' = security_objs h @ c"
  shows "raw_options h' options = raw_options h options"
    and "deep_cors h' (cors (raw_options h options)) = deep_cors h (cors (raw_options h options))"
    and "deep_security h' (security (raw_options h options))
           = deep_security h (security (raw_options h options))"
proof -
  show 1: "raw_options h' options = raw_options h options"
    using assms by (cases options) (simp_all add: raw_options_def valid_options_def nth_append)
  show "deep_cors h' (cors (raw_options h options)) = deep_cors h (cors (raw_options h options))"
    using assms
    by (cases options; cases "cors (raw_options h options)" rule: setting_cases)
       (simp_all add: raw_options_def valid_options_def valid_setting_def deep_cors_def
          nth_append empty_server_def)
  show "deep_security h' (security (raw_options h options))
           = deep_security h (security (raw_options h options))"
    using assms
    by (cases options; cases "security (raw_options h options)" rule: setting_cases)
       (simp_all add: raw_options_def valid_options_def valid_setting_def deep_security_def
          nth_append empty_server_def)
qed

lemma Realm_Inr_resolve:
  assumes d: "has_defaults h" and R: "Realm h options = (Inr s, h')"
  shows "resolve (raw_options h options) (deep_cors h (cors (raw_options h options)))
             (deep_security h (security (raw_options h options)))
         = Inr \<lparr>resolved_location = location (server_objs h' ! s),
               resolved_timeout = timeout (server_objs h' ! s),
               resolved_tls = tls (server_objs h' ! s),
               resolved_cors = deep_cors h' (cors (server_objs h' ! s)),
               resolved_security = deep_security h' (security (server_objs h' ! s))\<rparr>"
  using Realm_resolves [OF d R] by (simp add: outcome_def)

lemma resolve_Inr:
  assumes "resolve raw c s = Inr v"
  shows "assert_timeouts (merge_timeout (timeout defaults_server) (timeout raw)) = Inr ()"
    and "resolve_cors c = Inr (resolved_cors v)"
    and "resolve_security s = Inr (resolved_security v)"
  using assms
  by (auto simp: resolve_def Let_def split: if_splits sum.splits)

lemma map_sum_DObject: "map_sum id DObject x = Inr (DObject ob) \<longleftrightarrow> x = Inr ob"
  by (cases x) simp_all

lemma resolve_cors_DObject:
  "resolve_cors c = Inr (DObject ob) \<Longrightarrow> \<exists>m. derive_cors m = Inr ob"
  by (cases c) (auto simp: resolve_cors_def map_sum_DObject split: bool.splits)


lemma cors_origin_nonempty: "es \<noteq> [] \<Longrightarrow> cors_origin mo es \<noteq> Inr None"
  by (simp add: cors_origin_def Let_def)

lemma derive_cors_origin:
  assumes "derive_cors m = Inr ob" "origin ob = Some es" "es \<noteq> []"
  shows "cors_origin (matchOrigin ob = Some True) es = Inr (private_origin ob)"
proof -
  from assms(1) obtain hdrs mths exps where
    h: "headers m = Some hdrs" "methods m = Some mths" "exposedHeaders m = Some exps"
    by (auto simp: derive_cors_def split: option.splits)
  define m1 where "m1 = m\<lparr>private_headers :=
                          Some (join '', '' (concat_array hdrs (additionalHeaders m))),
                        private_methods :=
                          Some (join '', '' (concat_array mths (additionalMethods m))),
                        private_exposedHeaders :=
                          Some (join '', '' (concat_array exps (additionalExposedHeaders m)))\<rparr>"
  have sel: "origin m1 = origin m" "matchOrigin m1 = matchOrigin m" by (simp_all add: m1_def)
  have D: "(case origin m of
                 None \<Rightarrow> Inl TypeError
               | Some og \<Rightarrow>
                   (case cors_origin (matchOrigin m = Some True) og of
                      Inl e \<Rightarrow> Inl e
                    | Inr None \<Rightarrow> Inr m1
                    | Inr (Some x) \<Rightarrow> Inr (m1\<lparr>private_origin := Some x\<rparr>))) = Inr ob"
    using assms(1) unfolding derive_cors_def h prod.case option.case Let_def m1_def [symmetric] sel
    by assumption
  then obtain og where og: "origin m = Some og" by (cases "origin m") simp_all
  show ?thesis
  proof (cases "cors_origin (matchOrigin m = Some True) og")
    case (Inl e)
    with D og show ?thesis by simp
  next
    case (Inr x)
    show ?thesis
    proof (cases x)
      case None
      with D og Inr have "ob = m1" by simp
      with assms(2) og sel have "og = es" by simp
      with cors_origin_nonempty [OF assms(3)] Inr None show ?thesis by simp
    next
      case (Some y)
      with D og Inr have ob: "ob = m1\<lparr>private_origin := Some y\<rparr>" by simp
      with assms(2) og sel have "og = es" by simp
      with ob Inr Some sel show ?thesis by simp
    qed
  qed
qed


lemma Realm_timeouts:
  assumes d: "has_defaults h"
    and t: "assert_timeouts (merge_timeout defaults_timeout (timeout (raw_options h options)))
              \<noteq> Inr ()"
  shows "\<exists>e. fst (Realm h options) = Inl e"
proof (cases "Realm h options")
  case (Pair r h')
  show ?thesis
  proof (cases r)
    case (Inl e)
    with Pair show ?thesis by simp
  next
    case (Inr s)
    from Realm_Inr_resolve [OF d Pair [unfolded Inr]] resolve_Inr(1) t
    show ?thesis by (simp add: defaults_server_def)
  qed
qed

lemma Realm_cors_origin:
  assumes d: "has_defaults h" and R: "Realm h options = (Inr s, h')"
    and c: "deep_cors h' (cors (server_objs h' ! s)) = DObject ob"
    and o: "origin ob = Some es" "es \<noteq> []"
  shows "cors_origin (matchOrigin ob = Some True) es = Inr (private_origin ob)"
proof -
  from resolve_Inr(2) [OF Realm_Inr_resolve [OF d R]] c
  obtain m where "derive_cors m = Inr ob"
    using resolve_cors_DObject by auto
  from derive_cors_origin [OF this o] show ?thesis .
qed


section \<open>Properties of the constructors on given options\<close>

lemmas Realm_eval =
  Realm_def cors_block_def security_block_def applyToDefaultsWithShallow_def
  applyToDefaults_cors_def applyToDefaults_security_def
  clone_cors_def clone_security_def merge_cors_property_def merge_security_property_def
  merge_cors_def merge_security_def merge_timeout_def override_def
  set_cors_def set_security_def generate_cors_def generate_security_def
  derive_cors_def derive_security_def concat_array_def location_ok_def
  assert_timeouts_def socketTimeout_def
  module_store_def defaults_server_def defaults_cors_def defaults_security_def
  defaults_timeout_def empty_server_def with_options_def empty_cors_def empty_security_def
  Let_def

lemma has_defaults_with_options: "has_defaults (with_options raw cs ss)"
  by (simp add: has_defaults_def with_options_def)

lemma Realm_example_options:
  "fst (Realm example_options (Some 1)) = Inr 2"
  "server_objs (snd (Realm example_options (Some 1))) ! 2 =
     \<lparr>location = Some [], timeout = defaults_timeout, tls = None,
      cors = Some (Object 3), security = Some (Object 3)\<rparr>"
  "private_origin (cors_objs (snd (Realm example_options (Some 1))) ! 3) =
     Some \<lparr>any = False, qualifiedOrigins = [''http://a.com''],
           qualifiedString = ''http://a.com'',
           wildcards = [''^http'' @ [CHR 0x5C] @ '':'' @ [CHR 0x5C] @ ''/'' @ [CHR 0x5C]
                               @ ''/.*'' @ [CHR 0x5C] @ ''.b'' @ [CHR 0x5C] @ ''.com$'']\<rparr>"
  "origin (cors_objs (snd (Realm example_options (Some 1))) ! 3) =
     Some [''http://a.com'', ''http://*.b.com'']"
  "matchOrigin (cors_objs (snd (Realm example_options (Some 1))) ! 3) = Some True"
  "hsts (security_objs (snd (Realm example_options (Some 1))) ! 3) =
     Some (HstsObject (Some 600) (Some True))"
  "xframe (security_objs (snd (Realm example_options (Some 1))) ! 3) =
     Some (XframeString ''deny'')"
  "private_hsts (security_objs (snd (Realm example_options (Some 1))) ! 3) =
     Some ''max-age=600; includeSubdomains''"
  "private_xframe (security_objs (snd (Realm example_options (Some 1))) ! 3) = Some ''DENY''"
  by (simp_all add: example_options_def Realm_eval cors_origin_def wildcard_RegExp_def
        regex_special_def hsts_header_def xframe_header_def NumberToString_def
        toUpperCase_def upper_char_def)

text \<open>
  C10. The empty string passed to the constructor: its numeric coercion is the finite
  number 0, so the classification puts 0 in the port slot and nothing in the host
  slot, and the server built from it has the host \<open>''\<close> and the port 0.
\<close>

theorem empty_string_is_port_zero:
  "coerce (JStr '''' :: nat jsval) = (''number'', JNum (Fin 0))
   \<and> port_step (JStr '''') (r :: nat object) =
       (if ToBoolean (property r ''port'') then Inl (DuplicatedArgType ''number'')
        else Inr (r(''port'' \<mapsto> JNum (Fin 0))))
   \<and> port [JStr '''' :: nat jsval] = Inr [''port'' \<mapsto> JNum (Fin 0)]
   \<and> fst (Server Path_resolve module_store [JStr '''']) =
       Inr \<lparr>settings_address = 1, unixDomainSocket = False, windowsNamedPipe = False,
            server_host = [], server_port = JNum (Fin 0), info_host = ''0.0.0.0'',
            info_port = JNum (Fin 0), info_protocol = ''http''\<rparr>"
proof -
  have c: "coerce (JStr '''' :: nat jsval) = (''number'', JNum (Fin 0))"
    by (simp add: coerce_def StringToNumber_def trim_def)
  have s: "port_step (JStr '''') r =
       (if ToBoolean (property r ''port'') then Inl (DuplicatedArgType ''number'')
        else Inr (r(''port'' \<mapsto> JNum (Fin 0))))"
    by (simp add: port_step_def c argMap_def)
  have p: "port [JStr '''' :: nat jsval] = Inr [''port'' \<mapsto> JNum (Fin 0)]"
    by (simp add: port_def port_step_def c argMap_def property_def)
  have r: "Realm module_store None =
      (Inr 1, module_store\<lparr>server_objs :=
                 [defaults_server, defaults_server\<lparr>cors := Some Null, security := Some Null\<rparr>]\<rparr>)"
    by (simp add: Realm_eval)
  have "fst (Server Path_resolve module_store [JStr '''']) =
       Inr \<lparr>settings_address = 1, unixDomainSocket = False, windowsNamedPipe = False,
            server_host = [], server_port = JNum (Fin 0), info_host = ''0.0.0.0'',
            info_port = JNum (Fin 0), info_protocol = ''http''\<rparr>"
    by (simp add: Server_def p property_def r configure_def defaults_server_def Let_def)
  with c s p show ?thesis by blast
qed

text \<open>
  C3, at the input where the code departs from it. The arguments \<open>(0, 9090)\<close> both
  classify to the port slot, and construction succeeds with the port 9090: the check
  for a duplicate reads the truth value of the slot, and 0 is not truthy. The
  arguments \<open>(8080, 9090)\<close> are rejected.
\<close>

theorem duplicate_port_after_zero:
  "port [JNum (Fin 0), JNum (Fin 9090) :: nat jsval] = Inr [''port'' \<mapsto> JNum (Fin 9090)]
   \<and> port [JNum (Fin 8080), JNum (Fin 9090) :: nat jsval] = Inl (DuplicatedArgType ''number'')"
  by (simp add: port_eval)

subsection \<open>Timeouts\<close>

lemma enabled_Millis: "enabled d \<longleftrightarrow> (\<exists>n. d = Some (Millis n) \<and> n \<noteq> 0)"
  by (cases d rule: enabled.cases) auto

lemma shorter_enabled: "enabled a \<Longrightarrow> enabled b \<Longrightarrow> shorter a b \<longleftrightarrow> millis a < millis b"
  by (auto simp: enabled_Millis)

text \<open>
  C4, as amended. The effective socket timeout is the configured one, or 120000 when
  it is unset. The assertions fail exactly when the server timeout and the socket
  timeout are both enabled and the server timeout is not below the socket timeout, or
  the same holds of the client timeout; a disabled side enforces nothing. The options
  \<open>{socket: 1000, server: 2000}\<close> are rejected at construction; \<open>{socket: 5000,
  server: 2000}\<close> with a client timeout of 1000, or a disabled one, are accepted.
\<close>

theorem timeout_cross_validation:
  "socketTimeout t = (case socket t of None \<Rightarrow> Some (Millis 120000) | Some d \<Rightarrow> Some d)
   \<and> assert_timeouts t =
       (if enabled (server t) \<and> enabled (socketTimeout t)
           \<and> millis (socketTimeout t) \<le> millis (server t)
        then Inl ServerTimeoutNotShorter
        else if enabled (client t) \<and> enabled (socketTimeout t)
           \<and> millis (socketTimeout t) \<le> millis (client t)
        then Inl ClientTimeoutNotShorter
        else Inr ())
   \<and> (has_defaults h \<longrightarrow>
        assert_timeouts (merge_timeout defaults_timeout (timeout (raw_options h options)))
          \<noteq> Inr () \<longrightarrow>
        (\<exists>e. fst (Realm h options) = Inl e))
   \<and> fst (Realm (with_options
              (empty_server\<lparr>timeout := \<lparr>socket = Some (Millis 1000), client = None,
                                         server = Some (Millis 2000)\<rparr>\<rparr>) [] []) (Some 1))
       = Inl ServerTimeoutNotShorter
   \<and> fst (Realm (with_options
              (empty_server\<lparr>timeout := \<lparr>socket = Some (Millis 5000), client = Some (Millis 1000),
                                         server = Some (Millis 2000)\<rparr>\<rparr>) [] []) (Some 1))
       = Inr 2
   \<and> fst (Realm (with_options
              (empty_server\<lparr>timeout := \<lparr>socket = Some (Millis 5000), client = Some Disabled,
                                         server = Some (Millis 2000)\<rparr>\<rparr>) [] []) (Some 1))
       = Inr 2"
proof -
  have 1: "socketTimeout t = (case socket t of None \<Rightarrow> Some (Millis 120000) | Some d \<Rightarrow> Some d)"
    by (simp add: socketTimeout_def split: option.splits)
  have 2: "assert_timeouts t =
       (if enabled (server t) \<and> enabled (socketTimeout t)
           \<and> millis (socketTimeout t) \<le> millis (server t)
        then Inl ServerTimeoutNotShorter
        else if enabled (client t) \<and> enabled (socketTimeout t)
           \<and> millis (socketTimeout t) \<le> millis (client t)
        then Inl ClientTimeoutNotShorter
        else Inr ())"
    unfolding assert_timeouts_def
    by (auto simp: shorter_enabled)
  have 3: "fst (Realm (with_options
              (empty_server\<lparr>timeout := \<lparr>socket = Some (Millis 1000), client = None,
                                         server = Some (Millis 2000)\<rparr>\<rparr>) [] []) (Some 1))
       = Inl ServerTimeoutNotShorter"
    by (simp add: Realm_eval)
  have 4: "fst (Realm (with_options
              (empty_server\<lparr>timeout := \<lparr>socket = Some (Millis 5000), client = Some (Millis 1000),
                                         server = Some (Millis 2000)\<rparr>\<rparr>) [] []) (Some 1))
       = Inr 2"
    by (simp add: Realm_eval)
  have 5: "fst (Realm (with_options
              (empty_server\<lparr>timeout := \<lparr>socket = Some (Millis 5000), client = Some Disabled,
                                         server = Some (Millis 2000)\<rparr>\<rparr>) [] []) (Some 1))
       = Inr 2"
    by (simp add: Realm_eval)
  have 6: "has_defaults h \<longrightarrow>
        assert_timeouts (merge_timeout defaults_timeout (timeout (raw_options h options)))
          \<noteq> Inr () \<longrightarrow>
        (\<exists>e. fst (Realm h options) = Inl e)"
    using Realm_timeouts by blast
  from 1 2 3 4 5 6 show ?thesis by blast
qed

theorem timeout_cross_validation_witness:
  "assert_timeouts \<lparr>socket = Some (Millis 1000), client = Some (Millis 10000),
                     server = Some (Millis 2000)\<rparr> = Inl ServerTimeoutNotShorter
   \<and> has_defaults (with_options
          (empty_server\<lparr>timeout := \<lparr>socket = Some (Millis 1000), client = None,
                                     server = Some (Millis 2000)\<rparr>\<rparr>) [] [])
   \<and> assert_timeouts (merge_timeout defaults_timeout (timeout (raw_options (with_options
          (empty_server\<lparr>timeout := \<lparr>socket = Some (Millis 1000), client = None,
                                     server = Some (Millis 2000)\<rparr>\<rparr>) [] []) (Some 1))))
        = Inl ServerTimeoutNotShorter
   \<and> (\<exists>e. fst (Realm (with_options
          (empty_server\<lparr>timeout := \<lparr>socket = Some (Millis 1000), client = None,
                                     server = Some (Millis 2000)\<rparr>\<rparr>) [] []) (Some 1)) = Inl e)"
proof -
  let ?t = "\<lparr>socket = Some (Millis 1000), client = Some (Millis 10000),
                     server = Some (Millis 2000)\<rparr>"
  let ?h = "with_options
          (empty_server\<lparr>timeout := \<lparr>socket = Some (Millis 1000), client = None,
                                     server = Some (Millis 2000)\<rparr>\<rparr>) [] []"
  have m: "merge_timeout defaults_timeout (timeout (raw_options ?h (Some 1))) = ?t"
    by (simp add: raw_options_def with_options_def merge_timeout_def defaults_timeout_def
          override_def empty_server_def)
  note T = timeout_cross_validation [of ?t ?h "Some 1"]
  have a: "assert_timeouts ?t = Inl ServerTimeoutNotShorter"
    using T by simp
  show ?thesis
    using T a m has_defaults_with_options by simp
qed

text \<open>
  The options \<open>{socket: 5000, server: 2000}\<close> alone are not accepted: the client
  timeout keeps its default of 10000, which is not below 5000.
\<close>

theorem timeout_default_client_counterexample:
  "fst (Realm (with_options
          (empty_server\<lparr>timeout := \<lparr>socket = Some (Millis 5000), client = None,
                                     server = Some (Millis 2000)\<rparr>\<rparr>) [] []) (Some 1))
     = Inl ClientTimeoutNotShorter"
  by (simp add: Realm_eval)

subsection \<open>Security headers\<close>



lemma security_header_examples:
  "hsts_header (Some (HstsNumber 31536000)) = Some ''max-age=31536000''
   \<and> hsts_header (Some (HstsObject (Some 600) (Some True))) =
       Some ''max-age=600; includeSubdomains''
   \<and> xframe_header (Some (XframeString ''sameorigin'')) = Inr (Some ''SAMEORIGIN'')
   \<and> xframe_header (Some (XframeObject (Some ''allow-from'') (Some ''http://a.com''))) =
       Inr (Some ''ALLOW-FROM http://a.com'')
   \<and> xframe_header (Some (XframeObject (Some ''deny'') None)) = Inr (Some ''DENY'')"
  by (simp add: hsts_header_def xframe_header_def NumberToString_def toUpperCase_def
        upper_char_def)


subsection \<open>CORS origins\<close>

lemma replace_escaped_Cons:
  "x \<noteq> CHR 0x5C \<or> take 1 s \<noteq> [c] \<Longrightarrow>
     replace_escaped c r (x # s) = x # replace_escaped c r s"
  by (cases s) auto

lemma escapeRegex_head:
  "regex_special c \<Longrightarrow> c \<noteq> CHR 0x5C \<Longrightarrow> take 1 (escapeRegex s) \<noteq> [c]"
  by (cases s) auto

lemma special_star: "regex_special (CHR ''*'')"
  by (simp add: regex_special_def)

lemma special_quest: "regex_special (CHR ''?'')"
  by (simp add: regex_special_def)

lemma special_bs: "regex_special (CHR 0x5C)"
  by (simp add: regex_special_def)

lemma star_replaced_head:
  "take 1 (replace_escaped (CHR ''*'') ''.*'' (escapeRegex s)) \<noteq> ''?''"
proof (cases s)
  case Nil
  then show ?thesis by simp
next
  case (Cons a t)
  show ?thesis
  proof (cases "regex_special a")
    case True
    then show ?thesis using Cons by auto
  next
    case False
    then have "a \<noteq> CHR ''?''" "a \<noteq> CHR 0x5C" using special_quest special_bs by auto
    then show ?thesis using Cons False by (simp add: replace_escaped_Cons)
  qed
qed

text \<open>
  The two replacements on the escaped origin never meet a backslash that belongs to
  another escape, so the pattern is the origin translated character by character.
\<close>

lemma replace_both:
  "replace_escaped (CHR ''?'') ''.'' (replace_escaped (CHR ''*'') ''.*'' (escapeRegex s))
     = concat (map wildcard_char s)"
proof (induction s)
  case Nil
  then show ?case by simp
next
  case (Cons a s)
  let ?E = "escapeRegex s"
  let ?R = "replace_escaped (CHR ''*'') ''.*'' ?E"
  have hE: "take 1 ?E \<noteq> ''*''"
    by (rule escapeRegex_head) (simp_all add: special_star)
  have hR: "take 1 ?R \<noteq> ''?''" by (rule star_replaced_head)
  consider (star) "a = CHR ''*''" | (quest) "a = CHR ''?''"
    | (special) "regex_special a" "a \<noteq> CHR ''*''" "a \<noteq> CHR ''?''"
    | (plain) "\<not> regex_special a"
    by blast
  then show ?case
  proof cases
    case star
    then show ?thesis
      using Cons.IH by (simp add: special_star wildcard_char_def replace_escaped_Cons)
  next
    case quest
    then show ?thesis
      using Cons.IH by (simp add: special_quest wildcard_char_def replace_escaped_Cons)
  next
    case special
    have 1: "replace_escaped (CHR ''*'') ''.*'' (a # ?E) = a # ?R"
      using hE by (simp add: replace_escaped_Cons)
    have 2: "replace_escaped (CHR ''?'') ''.'' (a # ?R)
               = a # replace_escaped (CHR ''?'') ''.'' ?R"
      using hR by (simp add: replace_escaped_Cons)
    show ?thesis
      using special Cons.IH by (simp add: wildcard_char_def 1 2)
  next
    case plain
    then have ne: "a \<noteq> CHR ''*''" "a \<noteq> CHR ''?''" "a \<noteq> CHR 0x5C"
      using special_star special_quest special_bs by auto
    then show ?thesis
      using plain Cons.IH by (simp add: wildcard_char_def replace_escaped_Cons)
  qed
qed

lemma wildcard_RegExp_eq:
  "wildcard_RegExp e = ''^'' @ concat (map wildcard_char e) @ ''$''"
  by (simp add: wildcard_RegExp_def replace_both)

lemma origin_loop_eq:
  "origin_loop es ob =
     ob\<lparr>qualifiedOrigins := qualifiedOrigins ob @ filter (\<lambda>e. CHR ''*'' \<notin> set e) es,
        wildcards := wildcards ob @ map wildcard_RegExp (filter (\<lambda>e. CHR ''*'' \<in> set e) es)\<rparr>"
  by (induction es arbitrary: ob) auto

text \<open>
  C1, as amended. For an origin list \<open>es\<close>: the list \<open>["*"]\<close> gives \<open>any = true\<close>; \<open>"*"\<close>
  together with another entry is a fatal error; otherwise every entry that contains
  \<open>*\<close> is compiled, in list order, to an anchored pattern (specials escaped, \<open>*\<close> as
  \<open>.*\<close>, \<open>?\<close> as \<open>.\<close>) in \<open>wildcards\<close>, every entry without \<open>*\<close> goes to the qualified
  list, \<open>qualifiedString\<close> is that list joined with spaces, and an entry with \<open>*\<close>
  while \<open>matchOrigin\<close> is false is a fatal error. With an empty list no \<open>_origin\<close> is
  derived.
\<close>

theorem cors_origin_classification:
  "cors_origin mo es =
     (if es = [] then Inr None
      else if es = [''*''] then
        Inr (Some \<lparr>any = True, qualifiedOrigins = [], qualifiedString = [], wildcards = []\<rparr>)
      else if ''*'' \<in> set es then Inl OriginStarWithOtherValues
      else if \<not> mo \<and> (\<exists>e \<in> set es. CHR ''*'' \<in> set e)
        then Inl WildcardWithMatchOriginDisabled
      else Inr (Some
        \<lparr>any = False,
         qualifiedOrigins = filter (\<lambda>e. CHR ''*'' \<notin> set e) es,
         qualifiedString = join '' '' (filter (\<lambda>e. CHR ''*'' \<notin> set e) es),
         wildcards = map (\<lambda>e. ''^'' @ concat (map wildcard_char e) @ ''$'')
                       (filter (\<lambda>e. CHR ''*'' \<in> set e) es)\<rparr>))
   \<and> (has_defaults h \<longrightarrow> Realm h options = (Inr a, h') \<longrightarrow>
        deep_cors h' (cors (server_objs h' ! a)) = DObject ob \<longrightarrow>
        origin ob = Some os \<longrightarrow> os \<noteq> [] \<longrightarrow>
        cors_origin (matchOrigin ob = Some True) os = Inr (private_origin ob))"
proof -
  have one: "length es = 1 \<and> ''*'' \<in> set es \<longleftrightarrow> es = [''*'']"
    by (cases es) auto
  have w: "(filter (\<lambda>e. CHR ''*'' \<in> set e) es = []) \<longleftrightarrow> \<not> (\<exists>e \<in> set es. CHR ''*'' \<in> set e)"
    by (auto simp: filter_empty_conv)
  have 1: "cors_origin mo es =
     (if es = [] then Inr None
      else if es = [''*''] then
        Inr (Some \<lparr>any = True, qualifiedOrigins = [], qualifiedString = [], wildcards = []\<rparr>)
      else if ''*'' \<in> set es then Inl OriginStarWithOtherValues
      else if \<not> mo \<and> (\<exists>e \<in> set es. CHR ''*'' \<in> set e)
        then Inl WildcardWithMatchOriginDisabled
      else Inr (Some
        \<lparr>any = False,
         qualifiedOrigins = filter (\<lambda>e. CHR ''*'' \<notin> set e) es,
         qualifiedString = join '' '' (filter (\<lambda>e. CHR ''*'' \<notin> set e) es),
         wildcards = map (\<lambda>e. ''^'' @ concat (map wildcard_char e) @ ''$'')
                       (filter (\<lambda>e. CHR ''*'' \<in> set e) es)\<rparr>))"
    using one w
    by (auto simp: cors_origin_def Let_def origin_loop_eq wildcard_RegExp_eq)
  have 2: "has_defaults h \<longrightarrow> Realm h options = (Inr a, h') \<longrightarrow>
        deep_cors h' (cors (server_objs h' ! a)) = DObject ob \<longrightarrow>
        origin ob = Some os \<longrightarrow> os \<noteq> [] \<longrightarrow>
        cors_origin (matchOrigin ob = Some True) os = Inr (private_origin ob)"
    using Realm_cors_origin by blast
  from 1 2 show ?thesis by blast
qed

theorem cors_origin_classification_witness:
  "has_defaults example_options
   \<and> Realm example_options (Some 1) = (Inr 2, snd (Realm example_options (Some 1)))
   \<and> origin (cors_objs (snd (Realm example_options (Some 1))) ! 3) =
       Some [''http://a.com'', ''http://*.b.com'']
   \<and> private_origin (cors_objs (snd (Realm example_options (Some 1))) ! 3) =
       Some \<lparr>any = False, qualifiedOrigins = [''http://a.com''],
             qualifiedString = ''http://a.com'',
             wildcards = [''^http'' @ [CHR 0x5C] @ '':'' @ [CHR 0x5C] @ ''/'' @ [CHR 0x5C]
                               @ ''/.*'' @ [CHR 0x5C] @ ''.b'' @ [CHR 0x5C] @ ''.com$'']\<rparr>
   \<and> cors_origin True [''http://a.com'', ''http://*.b.com''] =
       Inr (private_origin (cors_objs (snd (Realm example_options (Some 1))) ! 3))
   \<and> cors_origin False [''http://a.com'', ''http://*.b.com''] = Inl WildcardWithMatchOriginDisabled
   \<and> cors_origin True [''*'', ''http://a.com''] = Inl OriginStarWithOtherValues
   \<and> cors_origin True [''*''] =
       Inr (Some \<lparr>any = True, qualifiedOrigins = [], qualifiedString = [], wildcards = []\<rparr>)"
proof -
  let ?h' = "snd (Realm example_options (Some 1))"
  have d: "has_defaults example_options"
    by (simp add: example_options_def has_defaults_with_options)
  have R: "Realm example_options (Some 1) = (Inr 2, ?h')"
    using Realm_example_options(1) by (simp add: prod_eq_iff)
  have o: "deep_cors ?h' (cors (server_objs ?h' ! 2)) = DObject (cors_objs ?h' ! 3)"
    using Realm_example_options(2) by (simp add: deep_cors_def)
  note T = cors_origin_classification
    [of _ _ example_options "Some 1" 2 ?h' "cors_objs ?h' ! 3"
       "[''http://a.com'', ''http://*.b.com'']"]
  have c: "cors_origin True [''http://a.com'', ''http://*.b.com''] =
       Inr (private_origin (cors_objs ?h' ! 3))"
    using T d R o Realm_example_options(2-)
    by (simp add: wildcard_char_def regex_special_def)
  have e: "cors_origin False [''http://a.com'', ''http://*.b.com''] = Inl WildcardWithMatchOriginDisabled
   \<and> cors_origin True [''*'', ''http://a.com''] = Inl OriginStarWithOtherValues
   \<and> cors_origin True [''*''] =
       Inr (Some \<lparr>any = True, qualifiedOrigins = [], qualifiedString = [], wildcards = []\<rparr>)"
    by (simp add: cors_origin_def)
  from c d e R Realm_example_options(2-) show ?thesis by simp
qed

lemma cors_origin_examples:
  "cors_origin True [''http://a.com'', ''http://*.b.com''] =
     Inr (Some \<lparr>any = False, qualifiedOrigins = [''http://a.com''],
                qualifiedString = ''http://a.com'',
                wildcards = [''^http'' @ [CHR 0x5C] @ '':'' @ [CHR 0x5C] @ ''/'' @ [CHR 0x5C]
                               @ ''/.*'' @ [CHR 0x5C] @ ''.b'' @ [CHR 0x5C] @ ''.com$'']\<rparr>)
   \<and> cors_origin False [''http://a.com'', ''http://*.b.com''] = Inl WildcardWithMatchOriginDisabled
   \<and> cors_origin True [''*'', ''http://a.com''] = Inl OriginStarWithOtherValues"
  by (simp add: cors_origin_def wildcard_RegExp_def regex_special_def)

text \<open>
  The CORS options \<open>{origin: ['http://a?.com'], matchOrigin: false}\<close>: the entry
  contains \<open>?\<close> and no \<open>*\<close>; construction succeeds, the entry is in the qualified list
  and no pattern is compiled, where a pattern and a fatal error were claimed.
\<close>

theorem question_mark_origin_counterexample:
  "CHR ''?'' \<in> set ''http://a?.com''
   \<and> (case Realm (with_options (empty_server\<lparr>cors := Some (Object 1)\<rparr>)
                 [empty_cors\<lparr>origin := Some [''http://a?.com''], matchOrigin := Some False\<rparr>] [])
               (Some 1) of
        (r, h) \<Rightarrow> r = Inr 2 \<and> cors (server_objs h ! 2) = Some (Object 3)
            \<and> private_origin (cors_objs h ! 3) =
                Some \<lparr>any = False, qualifiedOrigins = [''http://a?.com''],
                      qualifiedString = ''http://a?.com'', wildcards = []\<rparr>)"
  by (simp add: Realm_eval cors_origin_def)

subsection \<open>Resolution twice\<close>

text \<open>
  C7. In a store with the defaults of the module and valid options, a construction
  changes no object that existed before it: the defaults and the raw options, with the
  objects they name, read the same afterwards. What it produces is the resolver of the
  options, a function of the options and the defaults alone. A second construction from
  the same options, in the store the first one left, produces the same outcome, and so
  the same six derived header strings.
\<close>

theorem resolution_idempotent:
  assumes d: "has_defaults h" and v: "valid_options h options"
    and R1: "Realm h options = (r1, h1)" and R2: "Realm h1 options = (r2, h2)"
  shows "take (length (server_objs h)) (server_objs h1) = server_objs h
     \<and> take (length (cors_objs h)) (cors_objs h1) = cors_objs h
     \<and> take (length (security_objs h)) (security_objs h1) = security_objs h
     \<and> raw_options h1 options = raw_options h options
     \<and> deep_cors h1 (cors (raw_options h1 options)) = deep_cors h (cors (raw_options h options))
     \<and> deep_security h1 (security (raw_options h1 options))
         = deep_security h (security (raw_options h options))
     \<and> outcome (r1, h1) =
         resolve (raw_options h options) (deep_cors h (cors (raw_options h options)))
           (deep_security h (security (raw_options h options)))
     \<and> outcome (r2, h2) = outcome (r1, h1)
     \<and> header_strings (outcome (r2, h2)) = header_strings (outcome (r1, h1))"
proof -
  from Realm_resolves [OF d R1] obtain a b c
    where o1: "outcome (r1, h1) =
         resolve (raw_options h options) (deep_cors h (cors (raw_options h options)))
           (deep_security h (security (raw_options h options)))"
      and f: "server_objs h1 = server_objs h @ a" "cors_objs h1 = cors_objs h @ b"
        "security_objs h1 = security_objs h @ c"
    by blast
  have d1: "has_defaults h1" by (rule has_defaults_extend [OF d f])
  note e = raw_options_extend [OF v f]
  from Realm_resolves [OF d1 R2] have "outcome (r2, h2) =
         resolve (raw_options h1 options) (deep_cors h1 (cors (raw_options h1 options)))
           (deep_security h1 (security (raw_options h1 options)))"
    by blast
  then have o2: "outcome (r2, h2) = outcome (r1, h1)"
    by (simp add: o1 e)
  show ?thesis using f e o1 o2 by simp
qed

theorem resolution_idempotent_witness:
  "has_defaults example_options \<and> valid_options example_options (Some 1)
   \<and> header_strings (outcome (Realm example_options (Some 1))) =
       Inr [Some ''Authorization, Content-Type, If-None-Match'',
            Some ''GET, HEAD, POST, PUT, PATCH, DELETE, OPTIONS'',
            Some ''WWW-Authenticate, Server-Authorization'',
            Some ''http://a.com'',
            Some ''max-age=600; includeSubdomains'',
            Some ''DENY'']
   \<and> header_strings (outcome (Realm (snd (Realm example_options (Some 1))) (Some 1))) =
       header_strings (outcome (Realm example_options (Some 1)))
   \<and> raw_options (snd (Realm example_options (Some 1))) (Some 1) =
       raw_options example_options (Some 1)
   \<and> take 2 (cors_objs (snd (Realm example_options (Some 1)))) = cors_objs example_options"
proof -
  have d: "has_defaults example_options"
    by (simp add: has_defaults_def example_options_def with_options_def)
  have v: "valid_options example_options (Some 1)"
    by (simp add: valid_options_def valid_setting_def example_options_def with_options_def
          empty_server_def)
  have R1: "Realm example_options (Some 1) =
      (fst (Realm example_options (Some 1)), snd (Realm example_options (Some 1)))"
    by simp
  have R2: "Realm (snd (Realm example_options (Some 1))) (Some 1) =
      (fst (Realm (snd (Realm example_options (Some 1))) (Some 1)),
       snd (Realm (snd (Realm example_options (Some 1))) (Some 1)))"
    by simp
  note T = resolution_idempotent [OF d v R1 R2]
  have len: "length (cors_objs example_options) = 2"
    by (simp add: example_options_def with_options_def)
  have s: "header_strings (outcome (Realm example_options (Some 1))) =
       Inr [Some ''Authorization, Content-Type, If-None-Match'',
            Some ''GET, HEAD, POST, PUT, PATCH, DELETE, OPTIONS'',
            Some ''WWW-Authenticate, Server-Authorization'',
            Some ''http://a.com'',
            Some ''max-age=600; includeSubdomains'',
            Some ''DENY'']"
    by (simp add: example_options_def Realm_eval outcome_def header_strings_def
          cors_strings_def security_strings_def deep_cors_def deep_security_def
          cors_origin_def hsts_header_def xframe_header_def NumberToString_def
          toUpperCase_def upper_char_def)
  show ?thesis using d v s T len by simp
qed

section \<open>Properties of the admission gate\<close>

text \<open>
  C6. When the load check reports overload (\<open>check\<close> is false) the gate logs the tags
  \<open>hapi\<close>, \<open>load\<close> with the load, replies once with the 503 error that carries the
  load, and does not run the pipeline. When it does not, the gate runs the pipeline
  once, logs nothing and replies nothing itself. With a pipeline that produces one
  response for the request, the request gets exactly one response on either path.
\<close>

theorem admission_gate:
  "(\<not> check \<longrightarrow>
      dispatch reply execute check load req =
        \<lparr>logged = [([''hapi'', ''load''], load)],
         replied = [\<lparr>statusCode = 503, message = ''Server under heavy load'', data = load\<rparr>],
         executed = 0,
         responses = [reply \<lparr>statusCode = 503, message = ''Server under heavy load'',
                             data = load\<rparr>]\<rparr>)
   \<and> (check \<longrightarrow>
      dispatch reply execute check load req =
        \<lparr>logged = [], replied = [], executed = 1, responses = execute req\<rparr>)
   \<and> (length (execute req) = 1 \<longrightarrow>
        length (responses (dispatch reply execute check load req)) = 1)"
  by (simp add: dispatch_def serverTimeout_def)

theorem admission_gate_witness:
  "dispatch statusCode (\<lambda>q. [200 + q]) False (7::nat) (0::nat) =
     \<lparr>logged = [([''hapi'', ''load''], 7)],
      replied = [\<lparr>statusCode = 503, message = ''Server under heavy load'', data = 7\<rparr>],
      executed = 0, responses = [503]\<rparr>
   \<and> dispatch statusCode (\<lambda>q. [200 + q]) True (7::nat) (0::nat) =
     \<lparr>logged = [], replied = [], executed = 1, responses = [200]\<rparr>
   \<and> length (responses (dispatch statusCode (\<lambda>q. [200 + q]) False (7::nat) (0::nat))) = 1
   \<and> length (responses (dispatch statusCode (\<lambda>q. [200 + q]) True (7::nat) (0::nat))) = 1"
  using admission_gate [of False statusCode "\<lambda>q. [200 + q]" "7::nat" "0::nat"]
    admission_gate [of True statusCode "\<lambda>q. [200 + q]" "7::nat" "0::nat"]
  by simp

section \<open>Properties of start and stop\<close>

lemmas lifecycle_eval =
  start_def init_def listen_def stop_def constructed_def onListening_def onConnection_def
  onClose_def onTimeout_def onListenerClosed_def connection_key_def unix_client_def due_def
  Let_def

lemma fire_started: "started (fire e s) = started s"
proof (cases e)
  case (Connect c)
  have "started ((onConnection c ^^ n) t) = started t" for n t
    by (induction n) (simp_all add: onConnection_def)
  then show ?thesis using Connect by simp
next
  case (SocketClosed i)
  have "started (fold onClose ks t) = started t" for ks t
    by (induction ks arbitrary: t) (simp_all add: onClose_def)
  then show ?thesis using SocketClosed by simp
qed (simp_all add: onListening_def onTimeout_def onListenerClosed_def)

lemma run_started: "run es s = Some s' \<Longrightarrow> started s' = started s"
  by (induction es arbitrary: s) (auto simp: fire_started split: if_splits)

subsection \<open>The stop of a server whose connections have distinct keys\<close>

text \<open>
  When no two connections that are open together have the same key, the registry
  tracks every open socket, the timer of \<^verbatim>\<open>_stop\<close> destroys all of them, and the close
  of the listener completes: at most the number of open sockets plus two events follow
  a stop, and when none is due any more the callback has been invoked once.
\<close>

lemma trackedD:
  assumes "tracked s"
  shows "distinct (map socket_id (open_sockets s))"
    and "c \<in> set (open_sockets s) \<Longrightarrow> map_of (connections s) (connection_key c) = Some c"
    and "h \<in> set (close_handlers s) \<Longrightarrow>
           \<exists>c \<in> set (open_sockets s). socket_id c = fst h \<and> snd h = connection_key c"
  using assms unfolding tracked_def by blast+

lemma trackedI:
  assumes "distinct (map socket_id (open_sockets s))"
    and "\<And>c. c \<in> set (open_sockets s) \<Longrightarrow> map_of (connections s) (connection_key c) = Some c"
    and "\<And>h. h \<in> set (close_handlers s) \<Longrightarrow>
           \<exists>c \<in> set (open_sockets s). socket_id c = fst h \<and> snd h = connection_key c"
  shows "tracked s"
  using assms unfolding tracked_def by blast

lemma fold_onClose:
  "fold onClose ks s = s\<lparr>connections := fold AList.delete ks (connections s)\<rparr>"
  by (induction ks arbitrary: s) (simp_all add: onClose_def)

lemma map_of_fold_delete:
  "map_of (fold AList.delete ks al) k = (if k \<in> set ks then None else map_of al k)"
  by (induction ks arbitrary: al) (auto simp: delete_conv')

lemma fire_SocketClosed:
  "fire (SocketClosed i) s =
     s\<lparr>open_sockets := filter (\<lambda>c. socket_id c \<noteq> i) (open_sockets s),
       close_handlers := filter (\<lambda>h. fst h \<noteq> i) (close_handlers s),
       connections := fold AList.delete (map snd (filter (\<lambda>h. fst h = i) (close_handlers s)))
                        (connections s)\<rparr>"
  by (simp add: fold_onClose)

lemma tracked_SocketClosed:
  assumes t: "tracked s"
  shows "tracked (fire (SocketClosed i) s)"
proof (rule trackedI)
  let ?s' = "fire (SocketClosed i) s"
  let ?ks = "map snd (filter (\<lambda>h. fst h = i) (close_handlers s))"
  have o: "open_sockets ?s' = filter (\<lambda>c. socket_id c \<noteq> i) (open_sockets s)"
    and h: "close_handlers ?s' = filter (\<lambda>h. fst h \<noteq> i) (close_handlers s)"
    and r: "connections ?s' = fold AList.delete ?ks (connections s)"
    unfolding fire_SocketClosed by simp_all
  show "distinct (map socket_id (open_sockets ?s'))"
    unfolding o using trackedD(1) [OF t] by (rule distinct_map_filter)
  show "map_of (connections ?s') (connection_key c) = Some c"
    if "c \<in> set (open_sockets ?s')" for c
  proof -
    from that have c: "c \<in> set (open_sockets s)" "socket_id c \<noteq> i"
      unfolding o by simp_all
    have "connection_key c \<notin> set ?ks"
    proof
      assume "connection_key c \<in> set ?ks"
      then obtain hd where hd: "hd \<in> set (close_handlers s)" "fst hd = i"
        "snd hd = connection_key c"
        by auto
      from trackedD(3) [OF t hd(1)] obtain c' where
        c': "c' \<in> set (open_sockets s)" "socket_id c' = fst hd" "snd hd = connection_key c'"
        by blast
      from trackedD(2) [OF t c(1)] trackedD(2) [OF t c'(1)] hd(3) c'(3)
      have "c = c'" by simp
      with c(2) c'(2) hd(2) show False by simp
    qed
    then show ?thesis
      unfolding r map_of_fold_delete using trackedD(2) [OF t c(1)] by simp
  qed
  show "\<exists>c \<in> set (open_sockets ?s'). socket_id c = fst hd \<and> snd hd = connection_key c"
    if "hd \<in> set (close_handlers ?s')" for hd
  proof -
    from that have hd: "hd \<in> set (close_handlers s)" "fst hd \<noteq> i"
      unfolding h by simp_all
    from trackedD(3) [OF t hd(1)] obtain c where
      "c \<in> set (open_sockets s)" "socket_id c = fst hd" "snd hd = connection_key c"
      by blast
    with hd(2) show ?thesis unfolding o by auto
  qed
qed


lemma tracked_cong:
  "open_sockets s' = open_sockets s \<Longrightarrow> connections s' = connections s \<Longrightarrow>
     close_handlers s' = close_handlers s \<Longrightarrow> tracked s' = tracked s"
  by (simp add: tracked_def)

lemma fire_Connect_one:
  "connection_handlers s = 1 \<Longrightarrow>
     fire (Connect c) s =
       s\<lparr>open_sockets := open_sockets s @ [c],
         connections := AList.update (connection_key c) c (connections s),
         close_handlers := close_handlers s @ [(socket_id c, connection_key c)]\<rparr>"
  by (simp add: onConnection_def)

lemma tracked_Connect:
  assumes t: "tracked s" and n: "connection_handlers s = 1"
    and f: "socket_id c \<notin> socket_id ` set (open_sockets s)"
    and k: "connection_key c \<notin> connection_key ` set (open_sockets s)"
  shows "tracked (fire (Connect c) s)"
proof (rule trackedI)
  let ?s' = "fire (Connect c) s"
  have o: "open_sockets ?s' = open_sockets s @ [c]"
    and h: "close_handlers ?s' = close_handlers s @ [(socket_id c, connection_key c)]"
    and r: "connections ?s' = AList.update (connection_key c) c (connections s)"
    unfolding fire_Connect_one [OF n] by simp_all
  show "distinct (map socket_id (open_sockets ?s'))"
    unfolding o using trackedD(1) [OF t] f by simp
  show "map_of (connections ?s') (connection_key c') = Some c'"
    if "c' \<in> set (open_sockets ?s')" for c'
  proof (cases "c' = c")
    case True
    then show ?thesis unfolding r by (simp add: update_conv')
  next
    case False
    with that have c': "c' \<in> set (open_sockets s)" unfolding o by simp
    with k have "connection_key c' \<noteq> connection_key c" by (metis imageI)
    then show ?thesis
      unfolding r using trackedD(2) [OF t c'] by (simp add: update_conv')
  qed
  show "\<exists>c' \<in> set (open_sockets ?s'). socket_id c' = fst hd \<and> snd hd = connection_key c'"
    if "hd \<in> set (close_handlers ?s')" for hd
  proof (cases "hd = (socket_id c, connection_key c)")
    case True
    then show ?thesis unfolding o by simp
  next
    case False
    with that have "hd \<in> set (close_handlers s)" unfolding h by simp
    from trackedD(3) [OF t this] show ?thesis unfolding o by auto
  qed
qed

lemma serving_fire:
  assumes s: "serving s" and p: "possible e s" and c: "collision_free [e] s"
  shows "serving (fire e s)"
proof (cases e)
  case Bound
  have "tracked (fire Bound s) = tracked s"
    by (rule tracked_cong) (simp_all add: onListening_def)
  with s show ?thesis unfolding Bound by (simp add: serving_def onListening_def)
next
  case (Connect x)
  from s have n: "connection_handlers s = 1" and t: "tracked s" by (simp_all add: serving_def)
  from p c have "tracked (fire (Connect x) s)"
    unfolding Connect by (intro tracked_Connect [OF t n]) simp_all
  moreover have "started (fire e s) = started s" by (rule fire_started)
  ultimately show ?thesis
    using s unfolding Connect serving_def fire_Connect_one [OF n] by simp
next
  case (SocketClosed i)
  from s have "tracked (fire (SocketClosed i) s)"
    by (intro tracked_SocketClosed) (simp add: serving_def)
  then show ?thesis
    using s unfolding SocketClosed serving_def fire_SocketClosed by simp
next
  case TimerFired
  with s p show ?thesis by (simp add: serving_def)
next
  case ListenerClosed
  with s p show ?thesis by (auto simp: serving_def)
next
  case Tick
  with s p show ?thesis by (simp add: serving_def)
qed

lemma serving_run:
  "serving s \<Longrightarrow> run es s = Some s' \<Longrightarrow> collision_free es s \<Longrightarrow> serving s'"
proof (induction es arbitrary: s)
  case Nil
  then show ?case by simp
next
  case (Cons e es)
  from Cons.prems(2) have p: "possible e s" and r: "run es (fire e s) = Some s'"
    by (simp_all split: if_splits)
  from Cons.prems(3) have c1: "collision_free [e] s" and c2: "collision_free es (fire e s)"
    by simp_all
  from Cons.IH [OF serving_fire [OF Cons.prems(1) p c1] r c2] show ?case .
qed

lemma serving_start: "serving (start constructed)"
  by (simp add: serving_def start_def init_def listen_def constructed_def tracked_def)

lemma draining_stop: "serving s \<Longrightarrow> draining (stop t s)"
proof -
  assume s: "serving s"
  have "tracked (stop t s) = tracked s"
    by (rule tracked_cong) (simp_all add: stop_def Let_def)
  with s show ?thesis
    by (simp add: serving_def draining_def stop_def Let_def)
qed


lemma draining_fire:
  assumes d: "draining s" and p: "possible e s"
  shows "draining (fire e s) \<and> pending (fire e s) < pending s"
proof (cases e)
  case Bound
  with d p show ?thesis by (auto simp: draining_def)
next
  case (Connect c)
  with d p show ?thesis by (auto simp: draining_def)
next
  case Tick
  with d p show ?thesis by (simp add: draining_def)
next
  case ListenerClosed
  with d p show ?thesis
    by (auto simp: draining_def onListenerClosed_def pending_def)
next
  case TimerFired
  from p have tm: "timeoutId s \<noteq> None" unfolding TimerFired by simp
  with d have c: "listener s = Closing" "stop_callbacks s = 0" "tracked s"
    "tick_start s = 0" "tick_stop s = 0"
    by (auto simp: draining_def)
  define s' where "s' = fire TimerFired s"
  have f: "open_sockets s' = open_sockets s" "connections s' = connections s"
    "close_handlers s' = close_handlers s" "listener s' = listener s"
    "stop_callbacks s' = stop_callbacks s" "tick_start s' = tick_start s"
    "tick_stop s' = tick_stop s" "timeoutId s' = None"
    "destroyed s' = destroyed s @ map snd (connections s)"
    unfolding s'_def by (simp_all add: onTimeout_def)
  have t': "tracked s'" using c(3) tracked_cong [OF f(1,2,3)] by simp
  have sub: "socket_id ` set (open_sockets s') \<subseteq> socket_id ` set (destroyed s')"
  proof
    fix i assume "i \<in> socket_id ` set (open_sockets s')"
    then obtain x where x: "x \<in> set (open_sockets s)" "i = socket_id x"
      unfolding f by auto
    from trackedD(2) [OF c(3) x(1)] have "(connection_key x, x) \<in> set (connections s)"
      by (rule map_of_SomeD)
    then have "x \<in> snd ` set (connections s)" by force
    with x(2) show "i \<in> socket_id ` set (destroyed s')" unfolding f by simp
  qed
  have "draining s'"
    unfolding draining_def using c(1,2,4,5) t' sub by (simp add: f(4-8))
  moreover have "pending s' < pending s"
    using tm by (auto simp add: pending_def f)
  ultimately show ?thesis unfolding TimerFired s'_def by simp
next
  case (SocketClosed i)
  from p have i: "i \<in> socket_id ` set (open_sockets s)" unfolding SocketClosed by simp
  then have ne: "open_sockets s \<noteq> []" by auto
  with d have c: "listener s = Closing" "stop_callbacks s = 0" "tracked s"
    "tick_start s = 0" "tick_stop s = 0"
    "timeoutId s = None \<longrightarrow>
       socket_id ` set (open_sockets s) \<subseteq> socket_id ` set (destroyed s)"
    by (auto simp: draining_def)
  define s' where "s' = fire (SocketClosed i) s"
  have f: "open_sockets s' = filter (\<lambda>c. socket_id c \<noteq> i) (open_sockets s)"
    "listener s' = listener s"
    "stop_callbacks s' = stop_callbacks s" "tick_start s' = tick_start s"
    "tick_stop s' = tick_stop s" "timeoutId s' = timeoutId s"
    "destroyed s' = destroyed s"
    unfolding s'_def fire_SocketClosed by simp_all
  have t': "tracked s'" unfolding s'_def by (rule tracked_SocketClosed [OF c(3)])
  have sub: "timeoutId s' = None \<longrightarrow>
       socket_id ` set (open_sockets s') \<subseteq> socket_id ` set (destroyed s')"
    using c(6) unfolding f by auto
  have "draining s'"
    unfolding draining_def using c(1,2,4,5) t' sub by (simp add: f(2-5))
  moreover from i obtain x where "x \<in> set (open_sockets s)" "\<not> socket_id x \<noteq> i" by auto
  then have "length (open_sockets s') < length (open_sockets s)"
    unfolding f by (rule length_filter_less)
  then have "pending s' < pending s"
    by (simp add: pending_def f(2,6))
  ultimately show ?thesis unfolding SocketClosed s'_def by simp
qed

lemma draining_run:
  "draining s \<Longrightarrow> run es s = Some s' \<Longrightarrow> draining s' \<and> length es + pending s' \<le> pending s"
proof (induction es arbitrary: s)
  case Nil
  then show ?case by simp
next
  case (Cons e es)
  from Cons.prems(2) have p: "possible e s" and r: "run es (fire e s) = Some s'"
    by (simp_all split: if_splits)
  from draining_fire [OF Cons.prems(1) p]
  have d: "draining (fire e s)" and m: "pending (fire e s) < pending s" by simp_all
  from Cons.IH [OF d r] m show ?case by simp
qed

lemma draining_quiet:
  assumes d: "draining s" and q: "\<not> due s"
  shows "listener s = Idle \<and> stop_callbacks s = 1 \<and> open_sockets s = []
     \<and> timeoutId s = None"
proof (rule ccontr)
  assume n: "\<not> ?thesis"
  with d have c: "listener s = Closing" "tracked s"
    "timeoutId s = None \<longrightarrow>
       socket_id ` set (open_sockets s) \<subseteq> socket_id ` set (destroyed s)"
    by (auto simp: draining_def)
  from q have q1: "timeoutId s = None" by (simp add: due_def)
  from q c(1) have q2: "open_sockets s \<noteq> []" by (simp add: due_def)
  then obtain x where x: "x \<in> set (open_sockets s)" by (cases "open_sockets s") auto
  with c(3) q1 have "socket_id x \<in> socket_id ` set (destroyed s)" by auto
  with x q show False unfolding due_def by blast
qed

lemma stop_completes:
  assumes r1: "run es (start constructed) = Some s" and cf: "collision_free es (start constructed)"
    and r2: "run es' (stop t s) = Some s'"
  shows "length es' \<le> length (open_sockets s) + 2"
    and "\<not> due s' \<Longrightarrow> stop_callbacks s' = 1 \<and> open_sockets s' = [] \<and> timeoutId s' = None
           \<and> listener s' = Idle"
proof -
  have sv: "serving s" by (rule serving_run [OF serving_start r1 cf])
  have d: "draining (stop t s)" by (rule draining_stop [OF sv])
  from draining_run [OF d r2] have d': "draining s'"
    and m: "length es' + pending s' \<le> pending (stop t s)" by simp_all
  from sv have "pending (stop t s) = length (open_sockets s) + 2"
    by (simp add: pending_def stop_def Let_def serving_def)
  with m show "length es' \<le> length (open_sockets s) + 2" by simp
  show "stop_callbacks s' = 1 \<and> open_sockets s' = [] \<and> timeoutId s' = None
           \<and> listener s' = Idle" if "\<not> due s'"
    using draining_quiet [OF d' that] by simp
qed

text \<open>
  C9. A start of a server that is not started is the initialisation followed by the
  call to listen; the initialisation sets the registry to the empty object and leaves
  the listener as it was, so the registry is empty before the listener binds and
  accepts. This holds of a restart as well: after a stop of a started server and any
  events, the next start begins with an empty registry.
\<close>

theorem start_resets_registry:
  "\<not> started s \<Longrightarrow>
     start s = listen (init (s\<lparr>started := True\<rparr>))
     \<and> connections (init (s\<lparr>started := True\<rparr>)) = []
     \<and> listener (init (s\<lparr>started := True\<rparr>)) = listener s
     \<and> connections (start s) = [] \<and> started (start s) \<and> listener (start s) = Binding
     \<and> (\<forall>t u es s'. started u \<longrightarrow> run es (stop t u) = Some s' \<longrightarrow>
           connections (start s') = [] \<and> started (start s'))"
proof -
  assume ns: "\<not> started s"
  have restart: "connections (start s') = [] \<and> started (start s')"
    if "started u" "run es (stop t u) = Some s'" for t u es s'
  proof -
    have "\<not> started (stop t u)" using that(1) by (simp add: stop_def Let_def)
    with run_started [OF that(2)] have "\<not> started s'" by simp
    then show ?thesis by (simp add: start_def init_def listen_def)
  qed
  from ns have "start s = listen (init (s\<lparr>started := True\<rparr>))
     \<and> connections (init (s\<lparr>started := True\<rparr>)) = []
     \<and> listener (init (s\<lparr>started := True\<rparr>)) = listener s
     \<and> connections (start s) = [] \<and> started (start s) \<and> listener (start s) = Binding"
    by (simp add: start_def init_def listen_def)
  with restart show ?thesis by blast
qed

theorem start_resets_registry_witness:
  "\<not> started constructed
   \<and> connections (start constructed) = []
   \<and> (case run [Bound, Connect (unix_client 1)] (start constructed) of
         None \<Rightarrow> False
       | Some u \<Rightarrow>
           started u \<and> connections u = [(''undefined:undefined'', unix_client 1)]
           \<and> (case run [TimerFired, SocketClosed 1, ListenerClosed] (stop None u) of
                 None \<Rightarrow> False
               | Some s' \<Rightarrow> stop_callbacks s' = 1 \<and> connections (start s') = []
                   \<and> started (start s')))"
  using start_resets_registry [of constructed]
  by (simp add: lifecycle_eval)

text \<open>
  C8, at the input where the code departs from it. Two clients of a server on a UNIX
  domain socket have the same key. After the start and their connections the registry
  holds the second only. The stop sets the timer to 200; when it fires, the second
  connection alone is destroyed, and after its close the first is still open, the
  listener is still closing, nothing is due any more, and the callback of stop has not
  been invoked.
\<close>

theorem stop_hangs_on_equal_keys:
  "connection_key (unix_client 1) = connection_key (unix_client 2)
   \<and> (case run [Bound, Connect (unix_client 1), Connect (unix_client 2)] (start constructed) of
         None \<Rightarrow> False
       | Some s \<Rightarrow>
           open_sockets s = [unix_client 1, unix_client 2]
           \<and> connections s = [(''undefined:undefined'', unix_client 2)]
           \<and> timeoutId (stop (Some 200) s) = Some 200
           \<and> (case run [TimerFired, SocketClosed 2] (stop (Some 200) s) of
                 None \<Rightarrow> False
               | Some s' \<Rightarrow>
                   open_sockets s' = [unix_client 1] \<and> destroyed s' = [unix_client 2]
                   \<and> connections s' = [] \<and> timeoutId s' = None \<and> listener s' = Closing
                   \<and> stop_callbacks s' = 0 \<and> \<not> due s'))"
  by (simp add: lifecycle_eval)

end
